theory Spec2Isabelle
  imports Complex_Main "HOL-Library.Word"
begin

section \<open>Values shared by the whole script\<close>

text \<open>
  The script \<^verbatim>\<open>video_inference.py\<close> drives three collaborators: OpenCV (video
  files), TensorFlow (the pretrained graph) and the shell (the encoder). The model below
  follows the script statement by statement. Exceptions are values; the file system and
  the calls made to the collaborators are explicit state.
\<close>

datatype py_error = ValueError string | StopIteration | ZeroDivisionError

type_synonym uint8 = "8 word"

text \<open>
  A three-dimensional numpy array (height, width, channels). The shape is kept next to
  the nested element lists, as numpy keeps it next to the buffer.
\<close>

record 'a ndarray =
  dim0 :: nat
  dim1 :: nat
  dim2 :: nat
  elems :: "'a list list list"

text \<open>\<^verbatim>\<open>a[:, :, ::-1]\<close>: the last axis reversed, the shape unchanged.\<close>

definition reverse_channels :: "'a ndarray \<Rightarrow> 'a ndarray" where
  "reverse_channels a = a\<lparr>elems := map (map rev) (elems a)\<rparr>"

text \<open>Applying a function to every element, as numpy's element-wise operations do.\<close>

definition map_elems :: "('a \<Rightarrow> 'b) \<Rightarrow> 'a ndarray \<Rightarrow> 'b ndarray" where
  "map_elems f a =
     \<lparr>dim0 = dim0 a, dim1 = dim1 a, dim2 = dim2 a, elems = map (map (map f)) (elems a)\<rparr>"

definition values_of :: "'a ndarray \<Rightarrow> 'a list" where
  "values_of a = concat (concat (elems a))"

section \<open>Video files and OpenCV captures\<close>

text \<open>
  A video container: its decodable frames (BGR, 8 bit, each of the container's height and
  width) and the metadata OpenCV reports. The reported frame count is metadata of its own:
  it need not equal the number of frames that decode.
\<close>

record video_file =
  vframes :: "uint8 list list list list"
  vfps :: real
  vframe_count :: int
  vwidth :: nat
  vheight :: nat

text \<open>\<^verbatim>\<open>cv2.VideoCapture\<close>: the opened container and the position of the next frame.\<close>

record capture =
  cfile :: video_file
  cpos :: nat

definition cap_read :: "capture \<Rightarrow> uint8 ndarray option \<times> capture" where
  "cap_read c =
     (if cpos c < length (vframes (cfile c))
      then (Some \<lparr>dim0 = vheight (cfile c), dim1 = vwidth (cfile c), dim2 = 3,
                   elems = vframes (cfile c) ! cpos c\<rparr>,
            c\<lparr>cpos := Suc (cpos c)\<rparr>)
      else (None, c))"

definition cap_set_pos :: "capture \<Rightarrow> int \<Rightarrow> capture" where
  "cap_set_pos c n = c\<lparr>cpos := nat n\<rparr>"

section \<open>VideoReader\<close>

record VideoReader =
  self_video_path :: string
  self_cap :: capture
  self_fps :: real
  self_frame_count :: int
  self_width :: int
  self_height :: int
  self_start_frame :: int
  self_end_frame :: int
  self_current_frame :: int

text \<open>
  \<^verbatim>\<open>VideoReader.__init__\<close>. The path opens when the file system holds a video there.
\<close>

definition VideoReader_init ::
  "(string \<rightharpoonup> video_file) \<Rightarrow> string \<Rightarrow> int \<Rightarrow> int \<Rightarrow> py_error + VideoReader" where
  "VideoReader_init fs video_path start_frame end_frame =
     (case fs video_path of
        None \<Rightarrow> Inl (ValueError (''Could not open video file: '' @ video_path))
      | Some v \<Rightarrow>
          (let cap = \<lparr>cfile = v, cpos = 0\<rparr>;
               frame_count = vframe_count v;
               self = \<lparr>self_video_path = video_path, self_cap = cap, self_fps = vfps v,
                        self_frame_count = frame_count,
                        self_width = int (vwidth v), self_height = int (vheight v),
                        self_start_frame = start_frame,
                        self_end_frame = (if end_frame > 0 then end_frame else frame_count),
                        self_current_frame = 0\<rparr>
           in Inr (if start_frame > 0
                   then self\<lparr>self_cap := cap_set_pos cap start_frame,
                             self_current_frame := start_frame\<rparr>
                   else self)))"

text \<open>\<^verbatim>\<open>VideoReader.__next__\<close>: the frame comes back with its channels reversed.\<close>

definition VideoReader_next :: "VideoReader \<Rightarrow> py_error + (uint8 ndarray \<times> VideoReader)" where
  "VideoReader_next self =
     (if self_current_frame self \<ge> self_end_frame self then Inl StopIteration
      else (case cap_read (self_cap self) of
              (None, cap') \<Rightarrow> Inl StopIteration
            | (Some frame, cap') \<Rightarrow>
                Inr (reverse_channels frame,
                     self\<lparr>self_cap := cap', self_current_frame := self_current_frame self + 1\<rparr>)))"

text \<open>\<^verbatim>\<open>VideoReader.__len__\<close>, and the built-in \<^verbatim>\<open>len\<close>, which rejects a negative length.\<close>

definition VideoReader_len :: "VideoReader \<Rightarrow> int" where
  "VideoReader_len self = self_end_frame self - self_start_frame self"

definition len_builtin :: "VideoReader \<Rightarrow> py_error + int" where
  "len_builtin self =
     (if VideoReader_len self < 0 then Inl (ValueError ''__len__() should return >= 0'')
      else Inr (VideoReader_len self))"

text \<open>
  The frames a \<^verbatim>\<open>for\<close> loop over the reader receives, in order. Each successful
  \<^verbatim>\<open>__next__\<close> consumes one frame of the capture, so the iteration ends.
\<close>

definition frames_left :: "VideoReader \<Rightarrow> nat" where
  "frames_left self = length (vframes (cfile (self_cap self))) - cpos (self_cap self)"

lemma VideoReader_next_frames_left:
  "VideoReader_next self = Inr (frame, self') \<Longrightarrow> frames_left self' < frames_left self"
  by (auto simp: VideoReader_next_def cap_read_def frames_left_def
           split: if_splits prod.splits option.splits)

function reader_frames :: "VideoReader \<Rightarrow> uint8 ndarray list" where
  "reader_frames self =
     (case VideoReader_next self of
        Inl e \<Rightarrow> []
      | Inr (frame, self') \<Rightarrow> frame # reader_frames self')"
  by pat_completeness auto
termination
  by (relation "measure frames_left") (auto dest: VideoReader_next_frames_left)

section \<open>The checkpoint restore map\<close>

text \<open>
  \<^verbatim>\<open>re.match(pattern, string)\<close> for the patterns that TensorFlow variable names can
  form: ordinary characters, the dot, and (for the pattern the script spells out) a star
  after either. The match is anchored at the start of the string only. Other regular
  expression syntax is not modelled; variable names do not contain it.
\<close>

datatype re_atom = Lit char | AnyChar

datatype re_item = Once re_atom | Star re_atom

definition re_atom_of :: "char \<Rightarrow> re_atom" where
  "re_atom_of c = (if c = CHR ''.'' then AnyChar else Lit c)"

fun re_compile :: "string \<Rightarrow> re_item list" where
  "re_compile [] = []"
| "re_compile [c] = [Once (re_atom_of c)]"
| "re_compile (c # d # rest) =
     (if d = CHR ''*'' then Star (re_atom_of c) # re_compile rest
      else Once (re_atom_of c) # re_compile (d # rest))"

fun atom_matches :: "re_atom \<Rightarrow> char \<Rightarrow> bool" where
  "atom_matches (Lit c) x = (x = c)"
| "atom_matches AnyChar x = (x \<noteq> CHR 0x0A)"

fun items_match :: "re_item list \<Rightarrow> string \<Rightarrow> bool" where
  "items_match [] s = True"
| "items_match (Once a # r) [] = False"
| "items_match (Once a # r) (x # s) = (atom_matches a x \<and> items_match r s)"
| "items_match (Star a # r) [] = items_match r []"
| "items_match (Star a # r) (x # s) =
     (items_match r (x # s) \<or> (atom_matches a x \<and> items_match (Star a # r) s))"

definition re_match :: "string \<Rightarrow> string \<Rightarrow> bool" where
  "re_match pattern string = items_match (re_compile pattern) string"

text \<open>A Python dict: insertion ordered, a later store to a key replaces its value.\<close>

fun dict_set :: "('k \<times> 'v) list \<Rightarrow> 'k \<Rightarrow> 'v \<Rightarrow> ('k \<times> 'v) list" where
  "dict_set [] k v = [(k, v)]"
| "dict_set ((k', v') # d) k v =
     (if k' = k then (k, v) # d else (k', v') # dict_set d k v)"

text \<open>
  What the script hands to \<^verbatim>\<open>tf.train.Saver\<close>: a dict from checkpoint keys to
  variables, or the plain variable list. A variable is identified by its name. The script
  also creates the global step and an ExponentialMovingAverage object and collects
  \<^verbatim>\<open>ema_vars\<close> through \<^verbatim>\<open>_get_ema_vars\<close>; none of the three is used afterwards, and the
  global step is not trainable, so they do not enter the map.
\<close>

datatype saver_arg = VarDict "(string \<times> string) list" | VarList "string list"

text \<open>\<^verbatim>\<open>v.name[:-2]\<close>\<close>

definition drop_last2 :: "string \<Rightarrow> string" where
  "drop_last2 name = take (length name - 2) name"

definition restore_entry :: "string \<Rightarrow> (string \<times> string) list \<Rightarrow> (string \<times> string) list" where
  "restore_entry v d =
     (if re_match v ''.*global_step.*''
      then dict_set d (drop_last2 v) v
      else dict_set d (drop_last2 v @ ''/ExponentialMovingAverage'') v)"

definition restore_vars_dict :: "bool \<Rightarrow> string list \<Rightarrow> saver_arg" where
  "restore_vars_dict use_ema var_list =
     (if use_ema then VarDict (fold restore_entry var_list []) else VarList var_list)"




section \<open>The graph and the session\<close>

text \<open>
  The generator, the flow network and the warping come from modules outside this script.
  They enter as functions: \<open>generator\<close> maps the fed frame and the value of the variable
  \<^verbatim>\<open>pre_warp\<close> to the deprocessed generator output; \<open>flow_warp\<close> maps the values of
  \<^verbatim>\<open>pre_inputs\<close> and \<^verbatim>\<open>pre_gen\<close> and the fed frame to the warped, detail-enhanced
  previous output. Every tensor of the graph has a leading dimension of 1, so a tensor is
  modelled by its single batch element, and floating point values by the reals they
  denote. The variables \<^verbatim>\<open>pre_inputs\<close>, \<^verbatim>\<open>pre_gen\<close> and \<^verbatim>\<open>pre_warp\<close> are created with
  \<^verbatim>\<open>trainable=False\<close>: the trainable variables of the graph are those of the generator
  and the flow network, and the checkpoint is restored into those only.
\<close>

record tf_graph =
  generator :: "real ndarray \<Rightarrow> real ndarray \<Rightarrow> real ndarray"
  flow_warp :: "real ndarray \<Rightarrow> real ndarray \<Rightarrow> real ndarray \<Rightarrow> real ndarray"
  trainable_variables :: "string list"

record session =
  pre_inputs :: "real ndarray"
  pre_gen :: "real ndarray"
  pre_warp :: "real ndarray"

fun tf_zeros :: "int list \<Rightarrow> real ndarray" where
  "tf_zeros [n, h, w, c] =
     \<lparr>dim0 = nat h, dim1 = nat w, dim2 = nat c,
      elems = replicate (nat h) (replicate (nat w) (replicate (nat c) 0))\<rparr>"
| "tf_zeros shape = \<lparr>dim0 = 0, dim1 = 0, dim2 = 0, elems = []\<rparr>"

text \<open>\<^verbatim>\<open>sess.run(before_ops, feed_dict)\<close>: assigns the warped previous output to \<^verbatim>\<open>pre_warp\<close>.\<close>

definition run_before_ops :: "tf_graph \<Rightarrow> session \<Rightarrow> real ndarray \<Rightarrow> session" where
  "run_before_ops g sess inputs_raw =
     sess\<lparr>pre_warp := flow_warp g (pre_inputs sess) inputs_raw (pre_gen sess)\<rparr>"

text \<open>
  \<^verbatim>\<open>sess.run(outputs, feed_dict)\<close>: runs the generator on the fed frame and the current
  \<^verbatim>\<open>pre_warp\<close>, assigns \<^verbatim>\<open>pre_inputs\<close> and \<^verbatim>\<open>pre_gen\<close>, and returns the new \<^verbatim>\<open>pre_gen\<close>.
\<close>

definition run_outputs :: "tf_graph \<Rightarrow> session \<Rightarrow> real ndarray \<Rightarrow> real ndarray \<times> session" where
  "run_outputs g sess inputs_raw =
     (let out = generator g inputs_raw (pre_warp sess)
      in (out, sess\<lparr>pre_inputs := inputs_raw, pre_gen := out\<rparr>))"

section \<open>Pixel conversions\<close>

text \<open>\<^verbatim>\<open>np.array([frame]).astype(np.float32) / 255.0\<close>\<close>

definition normalize_frame :: "uint8 ndarray \<Rightarrow> real ndarray" where
  "normalize_frame frame = map_elems (\<lambda>b. real (unat b) / 255) frame"

definition np_clip :: "real \<Rightarrow> real \<Rightarrow> real \<Rightarrow> real" where
  "np_clip x lo hi = min (max x lo) hi"

text \<open>
  \<^verbatim>\<open>astype(np.uint8)\<close> on a float: the fraction is cut off towards zero and the integer
  is stored in eight bits, so a value outside 0..255 wraps around.
\<close>

definition astype_uint8 :: "real \<Rightarrow> uint8" where
  "astype_uint8 x = word_of_int (if x \<ge> 0 then \<lfloor>x\<rfloor> else \<lceil>x\<rceil>)"

text \<open>\<^verbatim>\<open>np.clip(output_frame[0] * 255.0, 0, 255).astype(np.uint8)[:, :, ::-1]\<close>\<close>

definition output_pixel :: "real \<Rightarrow> uint8" where
  "output_pixel x = astype_uint8 (np_clip (x * 255) 0 255)"

definition to_output_img :: "real ndarray \<Rightarrow> uint8 ndarray" where
  "to_output_img output_frame = reverse_channels (map_elems output_pixel output_frame)"

section \<open>The world outside the script\<close>

text \<open>
  Every call the script makes to a collaborator is recorded, in order: opening a capture,
  building the graph, creating directories, opening the writer, restoring the checkpoint,
  and, per frame of the loop, receiving the frame, running \<^verbatim>\<open>before_ops\<close>, running
  \<^verbatim>\<open>outputs\<close> (with the value of \<^verbatim>\<open>pre_warp\<close> the generator reads) and writing a
  frame; then releasing the writer, the shell command and the removal of a file.
\<close>

datatype event =
    EvCapture string
  | EvBuildGraph "int list" "int list"
  | EvMakedirs string
  | EvWriter string real "int \<times> int"
  | EvRestore saver_arg string
  | EvRead nat "uint8 ndarray"
  | EvBefore nat "real ndarray"
  | EvOutputs nat "real ndarray" "real ndarray"
  | EvWrite nat "uint8 ndarray"
  | EvRelease
  | EvSystem string
  | EvRemove string

record world =
  files :: "string \<rightharpoonup> video_file"
  dirs :: "string set"
  trace :: "event list"

definition emit :: "event \<Rightarrow> world \<Rightarrow> world" where
  "emit e w = w\<lparr>trace := trace w @ [e]\<rparr>"

text \<open>
  What the script cannot decide by itself: the graph TensorFlow builds for the given
  shapes, paddings, number of residual blocks and scale; whether OpenCV can open a writer
  on a path; and what a shell command does to the files.
\<close>

record env =
  build_graph :: "int list \<Rightarrow> int list \<Rightarrow> int list list \<Rightarrow> int \<Rightarrow> int \<Rightarrow> tf_graph"
  writer_opens :: "string \<Rightarrow> bool"
  os_system :: "string \<Rightarrow> (string \<rightharpoonup> video_file) \<Rightarrow> (string \<rightharpoonup> video_file)"

datatype outcome = Raised py_error | Returned

text \<open>\<^verbatim>\<open>os.path.dirname\<close> (POSIX)\<close>

definition os_path_dirname :: "string \<Rightarrow> string" where
  "os_path_dirname p =
     (let head = rev (dropWhile (\<lambda>c. c \<noteq> CHR ''/'') (rev p))
      in if head \<noteq> [] \<and> head \<noteq> replicate (length head) (CHR ''/'')
         then rev (dropWhile (\<lambda>c. c = CHR ''/'') (rev head))
         else head)"

definition path_exists :: "world \<Rightarrow> string \<Rightarrow> bool" where
  "path_exists w p = (p \<in> dirs w \<or> files w p \<noteq> None)"

text \<open>\<^verbatim>\<open>writer.write(img)\<close>: one more frame in the file the writer has open.\<close>

definition writer_write :: "string \<Rightarrow> uint8 ndarray \<Rightarrow> world \<Rightarrow> world" where
  "writer_write path img w =
     (case files w path of
        None \<Rightarrow> w
      | Some v \<Rightarrow>
          w\<lparr>files := (files w)(path \<mapsto>
               v\<lparr>vframes := vframes v @ [elems img], vframe_count := vframe_count v + 1\<rparr>)\<rparr>)"

section \<open>The frame loop\<close>

text \<open>The body of \<^verbatim>\<open>for i, frame in enumerate(video_reader)\<close>.\<close>

definition loop_body ::
  "tf_graph \<Rightarrow> string \<Rightarrow> nat \<Rightarrow> uint8 ndarray \<Rightarrow> session \<Rightarrow> world \<Rightarrow> session \<times> world" where
  "loop_body g temp_output_video i frame sess w =
     (let w = emit (EvRead i frame) w;
          input_frame = normalize_frame frame;
          sess = (if i \<noteq> 0 then run_before_ops g sess input_frame else sess);
          w = (if i \<noteq> 0 then emit (EvBefore i input_frame) w else w);
          w = emit (EvOutputs i input_frame (pre_warp sess)) w;
          (output_frame, sess) = run_outputs g sess input_frame
      in if i \<ge> 5
         then (let output_img = to_output_img output_frame
               in (sess, emit (EvWrite i output_img) (writer_write temp_output_video output_img w)))
         else (sess, w))"

function frame_loop ::
  "tf_graph \<Rightarrow> string \<Rightarrow> nat \<Rightarrow> VideoReader \<Rightarrow> session \<Rightarrow> world \<Rightarrow> session \<times> world" where
  "frame_loop g temp_output_video i video_reader sess w =
     (case VideoReader_next video_reader of
        Inl e \<Rightarrow> (sess, w)
      | Inr (frame, video_reader') \<Rightarrow>
          (case loop_body g temp_output_video i frame sess w of
             (sess', w') \<Rightarrow> frame_loop g temp_output_video (Suc i) video_reader' sess' w'))"
  by pat_completeness auto
termination
  by (relation "measure (\<lambda>(g, t, i, video_reader, sess, w). frames_left video_reader)")
     (auto dest: VideoReader_next_frames_left)

section \<open>process_video\<close>

definition ffmpeg_command :: "string \<Rightarrow> string \<Rightarrow> string" where
  "ffmpeg_command temp_output_video output_video =
     ''ffmpeg -i '' @ temp_output_video @ '' -c:v libx264 -crf 18 -preset slow '' @
     output_video @ '' -y''"

text \<open>
  The end of the script, after the session block: the writer is released, the encoder runs
  on the temporary file, the temporary file is removed when it exists, and the summary is
  printed. The summary divides by the number of frames the reader announced.
\<close>

definition finish_video :: "env \<Rightarrow> string \<Rightarrow> string \<Rightarrow> int \<Rightarrow> world \<Rightarrow> outcome \<times> world" where
  "finish_video e temp_output_video output_video total_frames w =
     (let w = emit EvRelease w;
          command = ffmpeg_command temp_output_video output_video;
          w = emit (EvSystem command) (w\<lparr>files := os_system e command (files w)\<rparr>);
          w = (if path_exists w temp_output_video
               then emit (EvRemove temp_output_video)
                      (w\<lparr>files := (files w)(temp_output_video := None)\<rparr>)
               else w)
      in if total_frames = 0 then (Raised ZeroDivisionError, w) else (Returned, w))"

text \<open>
  The script from its first statement to the end of the session block. Library calls
  whose failure the script does not test (building the graph, restoring the checkpoint,
  running the session, creating the directory) are modelled where they succeed.
\<close>

definition process_video ::
  "env \<Rightarrow> string \<Rightarrow> string \<Rightarrow> string option \<Rightarrow> int \<Rightarrow> int \<Rightarrow> bool \<Rightarrow> int \<Rightarrow> int \<Rightarrow> real \<Rightarrow>
   (string \<rightharpoonup> video_file) \<Rightarrow> string set \<Rightarrow> outcome \<times> world" where
  "process_video e input_video output_video checkpoint_path num_resblock vsr_scale use_ema
     start_frame end_frame fps files0 dirs0 =
   (let w = \<lparr>files = files0, dirs = dirs0, trace = []\<rparr> in
    case checkpoint_path of
      None \<Rightarrow>
        (Raised (ValueError ''The checkpoint file is needed to perform super-resolution.''), w)
    | Some checkpoint \<Rightarrow>
   (let w = emit (EvCapture input_video) w in
    case VideoReader_init (files w) input_video start_frame end_frame of
      Inl err \<Rightarrow> (Raised err, w)
    | Inr video_reader \<Rightarrow>
   (let w = emit (EvCapture input_video) w in
    case (case files w input_video of
            None \<Rightarrow> None
          | Some v \<Rightarrow> fst (cap_read \<lparr>cfile = v, cpos = 0\<rparr>)) of
      None \<Rightarrow> (Raised (ValueError (''Could not read from video file: '' @ input_video)), w)
    | Some frame0 \<Rightarrow>
   (let first_frame = reverse_channels frame0;
        input_shape = [1, int (dim0 first_frame), int (dim1 first_frame), 3];
        output_shape = [1, input_shape ! 1 * vsr_scale, input_shape ! 2 * vsr_scale, 3];
        oh = input_shape ! 1 - input_shape ! 1 div 8 * 8;
        ow = input_shape ! 2 - input_shape ! 2 div 8 * 8;
        paddings = [[0, 0], [0, oh], [0, ow], [0, 0]];
        g = build_graph e input_shape output_shape paddings num_resblock vsr_scale;
        w = emit (EvBuildGraph input_shape output_shape) w;
        sess = \<lparr>pre_inputs = tf_zeros input_shape, pre_gen = tf_zeros output_shape,
                pre_warp = tf_zeros output_shape\<rparr>;
        var_list = trainable_variables g;
        restore_vars = restore_vars_dict use_ema var_list;
        output_dir = os_path_dirname output_video;
        w = (if output_dir \<noteq> [] \<and> \<not> path_exists w output_dir
             then emit (EvMakedirs output_dir) (w\<lparr>dirs := insert output_dir (dirs w)\<rparr>)
             else w);
        output_fps = (if fps = 0 then self_fps video_reader else fps);
        output_width = output_shape ! 2;
        output_height = output_shape ! 1;
        temp_output_video = output_video @ ''.temp.mp4'';
        w = emit (EvWriter temp_output_video output_fps (output_width, output_height)) w
    in if \<not> writer_opens e temp_output_video
       then (Raised (ValueError (''Could not open video writer for: '' @ output_video)), w)
       else
   (let w = w\<lparr>files := (files w)(temp_output_video \<mapsto>
                 \<lparr>vframes = [], vfps = output_fps, vframe_count = 0,
                  vwidth = nat output_width, vheight = nat output_height\<rparr>)\<rparr>;
        w = emit (EvRestore restore_vars checkpoint) w
    in case len_builtin video_reader of
         Inl err \<Rightarrow> (Raised err, w)
       | Inr total_frames \<Rightarrow>
           (case frame_loop g temp_output_video 0 video_reader sess w of
              (sess, w) \<Rightarrow> finish_video e temp_output_video output_video total_frames w))))))"

section \<open>What a run looks like\<close>

text \<open>
  The definitions of this section describe a run for the proofs: the frame a capture
  decodes, the shapes and the graph \<open>process_video\<close> computes from the container, and the
  calls one frame and a list of frames give rise to.
\<close>

definition frame_of :: "video_file \<Rightarrow> uint8 list list list \<Rightarrow> uint8 ndarray" where
  "frame_of v d = \<lparr>dim0 = vheight v, dim1 = vwidth v, dim2 = 3, elems = d\<rparr>"

definition input_shape_of :: "video_file \<Rightarrow> int list" where
  "input_shape_of v = [1, int (vheight v), int (vwidth v), 3]"

definition output_shape_of :: "video_file \<Rightarrow> int \<Rightarrow> int list" where
  "output_shape_of v vsr_scale = [1, int (vheight v) * vsr_scale, int (vwidth v) * vsr_scale, 3]"

definition paddings_of :: "video_file \<Rightarrow> int list list" where
  "paddings_of v =
     [[0, 0], [0, int (vheight v) - int (vheight v) div 8 * 8],
      [0, int (vwidth v) - int (vwidth v) div 8 * 8], [0, 0]]"

definition graph_of :: "env \<Rightarrow> video_file \<Rightarrow> int \<Rightarrow> int \<Rightarrow> tf_graph" where
  "graph_of e v num_resblock vsr_scale =
     build_graph e (input_shape_of v) (output_shape_of v vsr_scale) (paddings_of v)
       num_resblock vsr_scale"

definition initial_session :: "video_file \<Rightarrow> int \<Rightarrow> session" where
  "initial_session v vsr_scale =
     \<lparr>pre_inputs = tf_zeros (input_shape_of v), pre_gen = tf_zeros (output_shape_of v vsr_scale),
      pre_warp = tf_zeros (output_shape_of v vsr_scale)\<rparr>"

definition setup_events ::
  "video_file \<Rightarrow> string \<Rightarrow> string \<Rightarrow> int \<Rightarrow> real \<Rightarrow> (string \<rightharpoonup> video_file) \<Rightarrow> string set \<Rightarrow>
   event list" where
  "setup_events v input_video output_video vsr_scale fps files0 dirs0 =
     [EvCapture input_video, EvCapture input_video,
      EvBuildGraph (input_shape_of v) (output_shape_of v vsr_scale)] @
     (if os_path_dirname output_video \<noteq> [] \<and> os_path_dirname output_video \<notin> dirs0 \<and>
         files0 (os_path_dirname output_video) = None
      then [EvMakedirs (os_path_dirname output_video)] else []) @
     [EvWriter (output_video @ ''.temp.mp4'') (if fps = 0 then vfps v else fps)
        (int (vwidth v) * vsr_scale, int (vheight v) * vsr_scale)]"

definition frame_session :: "tf_graph \<Rightarrow> nat \<Rightarrow> uint8 ndarray \<Rightarrow> session \<Rightarrow> session" where
  "frame_session g i frame sess =
     snd (run_outputs g (if i \<noteq> 0 then run_before_ops g sess (normalize_frame frame) else sess)
            (normalize_frame frame))"

definition frame_events :: "tf_graph \<Rightarrow> nat \<Rightarrow> uint8 ndarray \<Rightarrow> session \<Rightarrow> event list" where
  "frame_events g i frame sess =
     [EvRead i frame] @
     (if i \<noteq> 0 then [EvBefore i (normalize_frame frame)] else []) @
     [EvOutputs i (normalize_frame frame)
        (pre_warp (if i \<noteq> 0 then run_before_ops g sess (normalize_frame frame) else sess))] @
     (if i \<ge> 5 then [EvWrite i (to_output_img (pre_gen (frame_session g i frame sess)))] else [])"

fun loop_events :: "tf_graph \<Rightarrow> nat \<Rightarrow> uint8 ndarray list \<Rightarrow> session \<Rightarrow> event list" where
  "loop_events g i [] sess = []"
| "loop_events g i (frame # frames) sess =
     frame_events g i frame sess @ loop_events g (Suc i) frames (frame_session g i frame sess)"

text \<open>The calls of the loop, without their payloads: which call, for which loop index.\<close>

datatype call = CRead | CBefore | COutputs | CWrite

fun call_of :: "event \<Rightarrow> (call \<times> nat) list" where
  "call_of (EvRead i frame) = [(CRead, i)]"
| "call_of (EvBefore i x) = [(CBefore, i)]"
| "call_of (EvOutputs i x pw) = [(COutputs, i)]"
| "call_of (EvWrite i img) = [(CWrite, i)]"
| "call_of ev = []"

definition calls :: "event list \<Rightarrow> (call \<times> nat) list" where
  "calls tr = concat (map call_of tr)"


text \<open>
  The calls one frame is expected to give: the frame is received, \<^verbatim>\<open>before_ops\<close> runs unless
  the frame is the first, \<^verbatim>\<open>outputs\<close> runs, and the result is written from index 5 on.
\<close>

definition frame_calls :: "nat \<Rightarrow> (call \<times> nat) list" where
  "frame_calls i =
     [(CRead, i)] @ (if i = 0 then [] else [(CBefore, i)]) @ [(COutputs, i)] @
     (if 5 \<le> i then [(CWrite, i)] else [])"

text \<open>The frames written, fed and received, in the order of the calls.\<close>

fun written_of :: "event \<Rightarrow> uint8 ndarray list" where
  "written_of (EvWrite i img) = [img]"
| "written_of ev = []"

definition written_images :: "event list \<Rightarrow> uint8 ndarray list" where
  "written_images tr = concat (map written_of tr)"

fun fed_of :: "event \<Rightarrow> real ndarray list" where
  "fed_of (EvOutputs i x pw) = [x]"
| "fed_of ev = []"

definition fed_frames :: "event list \<Rightarrow> real ndarray list" where
  "fed_frames tr = concat (map fed_of tr)"

fun read_of :: "event \<Rightarrow> uint8 ndarray list" where
  "read_of (EvRead i frame) = [frame]"
| "read_of ev = []"

definition read_frames :: "event list \<Rightarrow> uint8 ndarray list" where
  "read_frames tr = concat (map read_of tr)"

text \<open>The file a writer has open, after some more frames.\<close>

definition add_frames :: "video_file \<Rightarrow> uint8 ndarray list \<Rightarrow> video_file" where
  "add_frames v imgs =
     v\<lparr>vframes := vframes v @ map elems imgs, vframe_count := vframe_count v + int (length imgs)\<rparr>"

text \<open>The directories and files a run leaves behind at its stages.\<close>

definition dirs_after :: "string \<Rightarrow> (string \<rightharpoonup> video_file) \<Rightarrow> string set \<Rightarrow> string set" where
  "dirs_after output_video files0 dirs0 =
     (if os_path_dirname output_video \<noteq> [] \<and> os_path_dirname output_video \<notin> dirs0 \<and>
         files0 (os_path_dirname output_video) = None
      then insert (os_path_dirname output_video) dirs0 else dirs0)"

definition temp_file :: "video_file \<Rightarrow> int \<Rightarrow> real \<Rightarrow> video_file" where
  "temp_file v vsr_scale fps =
     \<lparr>vframes = [], vfps = (if fps = 0 then vfps v else fps), vframe_count = 0,
      vwidth = nat (int (vwidth v) * vsr_scale), vheight = nat (int (vheight v) * vsr_scale)\<rparr>"

definition files_after_loop ::
  "env \<Rightarrow> video_file \<Rightarrow> string \<Rightarrow> int \<Rightarrow> int \<Rightarrow> real \<Rightarrow> VideoReader \<Rightarrow> (string \<rightharpoonup> video_file) \<Rightarrow>
   (string \<rightharpoonup> video_file)" where
  "files_after_loop e v output_video num_resblock vsr_scale fps rd files0 =
     files0(output_video @ ''.temp.mp4'' \<mapsto>
       add_frames (temp_file v vsr_scale fps)
         (written_images (loop_events (graph_of e v num_resblock vsr_scale) 0 (reader_frames rd)
            (initial_session v vsr_scale))))"

definition files_after_encoder ::
  "env \<Rightarrow> video_file \<Rightarrow> string \<Rightarrow> int \<Rightarrow> int \<Rightarrow> real \<Rightarrow> VideoReader \<Rightarrow> (string \<rightharpoonup> video_file) \<Rightarrow>
   (string \<rightharpoonup> video_file)" where
  "files_after_encoder e v output_video num_resblock vsr_scale fps rd files0 =
     os_system e (ffmpeg_command (output_video @ ''.temp.mp4'') output_video)
       (files_after_loop e v output_video num_resblock vsr_scale fps rd files0)"

text \<open>The graphs built, the writers opened and the shell commands run.\<close>

fun build_of :: "event \<Rightarrow> (int list \<times> int list) list" where
  "build_of (EvBuildGraph input_shape output_shape) = [(input_shape, output_shape)]"
| "build_of ev = []"

definition builds :: "event list \<Rightarrow> (int list \<times> int list) list" where
  "builds tr = concat (map build_of tr)"

fun writer_of :: "event \<Rightarrow> (string \<times> real \<times> int \<times> int) list" where
  "writer_of (EvWriter path fps frame_size) = [(path, fps, frame_size)]"
| "writer_of ev = []"

definition writers :: "event list \<Rightarrow> (string \<times> real \<times> int \<times> int) list" where
  "writers tr = concat (map writer_of tr)"

fun system_of :: "event \<Rightarrow> string list" where
  "system_of (EvSystem command) = [command]"
| "system_of ev = []"

definition systems :: "event list \<Rightarrow> string list" where
  "systems tr = concat (map system_of tr)"

fun remove_of :: "event \<Rightarrow> string list" where
  "remove_of (EvRemove path) = [path]"
| "remove_of ev = []"

definition removes :: "event list \<Rightarrow> string list" where
  "removes tr = concat (map remove_of tr)"

text \<open>The calls expected of a loop over n frames, and the generator runs of a trace.\<close>

definition expected_calls :: "nat \<Rightarrow> (call \<times> nat) list" where
  "expected_calls n = concat (map frame_calls [0..<n])"

fun output_of :: "event \<Rightarrow> (real ndarray \<times> real ndarray) list" where
  "output_of (EvOutputs i x pw) = [(x, pw)]"
| "output_of ev = []"

definition output_calls :: "event list \<Rightarrow> (real ndarray \<times> real ndarray) list" where
  "output_calls tr = concat (map output_of tr)"

section \<open>Example inputs\<close>

text \<open>
  A container of seven frames of one pixel, a graph whose generator returns the fed frame,
  and an encoder that copies the temporary file to the output path.
\<close>

definition demo_pixels :: "nat \<Rightarrow> uint8 list list list" where
  "demo_pixels n = [[[of_nat n, 0, 255]]]"

definition demo_video :: video_file where
  "demo_video = \<lparr>vframes = map demo_pixels [0, 1, 2, 3, 4, 5, 6], vfps = 30, vframe_count = 7,
                  vwidth = 1, vheight = 1\<rparr>"

definition demo_files :: "string \<rightharpoonup> video_file" where
  "demo_files = [''in.mp4'' \<mapsto> demo_video]"

definition demo_graph :: tf_graph where
  "demo_graph = \<lparr>generator = (\<lambda>x pw. x), flow_warp = (\<lambda>pi x pg. pg),
                  trainable_variables = [''generator/conv/kernel:0'']\<rparr>"

definition demo_encode :: "video_file option \<Rightarrow> video_file" where
  "demo_encode t = (case t of None \<Rightarrow> demo_video | Some v \<Rightarrow> v)"

definition demo_env :: env where
  "demo_env = \<lparr>build_graph = (\<lambda>input_shape output_shape paddings num_resblock vsr_scale. demo_graph),
                writer_opens = (\<lambda>p. True),
                os_system = (\<lambda>command fs. fs(''out.mp4'' \<mapsto> demo_encode (fs ''out.mp4.temp.mp4'')))\<rparr>"

definition demo_run :: "outcome \<times> world" where
  "demo_run = process_video demo_env ''in.mp4'' ''out.mp4'' (Some ''model.ckpt'') 10 2 True 0 (- 1) 0
     demo_files {}"

definition demo_rgb :: "nat \<Rightarrow> uint8 ndarray" where
  "demo_rgb n = \<lparr>dim0 = 1, dim1 = 1, dim2 = 3, elems = [[[255, 0, of_nat n]]]\<rparr>"

definition demo_fed :: "real \<Rightarrow> real ndarray" where
  "demo_fed x = \<lparr>dim0 = 1, dim1 = 1, dim2 = 3, elems = [[[1, 0, x]]]\<rparr>"

definition demo_bgr :: "nat \<Rightarrow> uint8 ndarray" where
  "demo_bgr n = \<lparr>dim0 = 1, dim1 = 1, dim2 = 3, elems = [[[of_nat n, 0, 255]]]\<rparr>"

definition demo_trace :: "event list" where
  "demo_trace =
     [EvCapture ''in.mp4'', EvCapture ''in.mp4'', EvBuildGraph [1, 1, 1, 3] [1, 2, 2, 3],
      EvWriter ''out.mp4.temp.mp4'' 30 (2, 2),
      EvRestore (VarDict [(''generator/conv/kernel/ExponentialMovingAverage'',
                           ''generator/conv/kernel:0'')]) ''model.ckpt'',
      EvRead 0 (demo_rgb 0), EvOutputs 0 (demo_fed 0) (tf_zeros [1, 2, 2, 3]),
      EvRead 1 (demo_rgb 1), EvBefore 1 (demo_fed (1 / 255)),
      EvOutputs 1 (demo_fed (1 / 255)) (demo_fed 0),
      EvRead 2 (demo_rgb 2), EvBefore 2 (demo_fed (2 / 255)),
      EvOutputs 2 (demo_fed (2 / 255)) (demo_fed (1 / 255)),
      EvRead 3 (demo_rgb 3), EvBefore 3 (demo_fed (3 / 255)),
      EvOutputs 3 (demo_fed (3 / 255)) (demo_fed (2 / 255)),
      EvRead 4 (demo_rgb 4), EvBefore 4 (demo_fed (4 / 255)),
      EvOutputs 4 (demo_fed (4 / 255)) (demo_fed (3 / 255)),
      EvRead 5 (demo_rgb 5), EvBefore 5 (demo_fed (5 / 255)),
      EvOutputs 5 (demo_fed (5 / 255)) (demo_fed (4 / 255)),
      EvWrite 5 (demo_bgr 5),
      EvRead 6 (demo_rgb 6), EvBefore 6 (demo_fed (6 / 255)),
      EvOutputs 6 (demo_fed (6 / 255)) (demo_fed (5 / 255)),
      EvWrite 6 (demo_bgr 6),
      EvRelease,
      EvSystem ''ffmpeg -i out.mp4.temp.mp4 -c:v libx264 -crf 18 -preset slow out.mp4 -y'',
      EvRemove ''out.mp4.temp.mp4'']"

definition demo_reader :: VideoReader where
  "demo_reader = \<lparr>self_video_path = ''in.mp4'', self_cap = \<lparr>cfile = demo_video, cpos = 0\<rparr>,
     self_fps = 30, self_frame_count = 7, self_width = 1, self_height = 1,
     self_start_frame = 0, self_end_frame = 7, self_current_frame = 0\<rparr>"

text \<open>A container without frames, and an environment in which no writer opens.\<close>

definition empty_video :: video_file where
  "empty_video = \<lparr>vframes = [], vfps = 30, vframe_count = 0, vwidth = 1, vheight = 1\<rparr>"

definition closed_env :: env where
  "closed_env = demo_env\<lparr>writer_opens := (\<lambda>p. False)\<rparr>"

section \<open>The reader and the loop\<close>

declare reader_frames.simps [simp del] frame_loop.simps [simp del]

lemma reader_frames_eq:
  "reader_frames rd =
     map (\<lambda>d. reverse_channels (frame_of (cfile (self_cap rd)) d))
       (take (nat (self_end_frame rd - self_current_frame rd))
          (drop (cpos (self_cap rd)) (vframes (cfile (self_cap rd)))))"
proof (induction rd rule: reader_frames.induct)
  case (1 self)
  show ?case
  proof (cases "VideoReader_next self")
    case (Inl err)
    then have "self_current_frame self \<ge> self_end_frame self \<or>
               cpos (self_cap self) \<ge> length (vframes (cfile (self_cap self)))"
      by (auto simp: VideoReader_next_def cap_read_def split: if_splits)
    with Inl show ?thesis
      by (subst reader_frames.simps) auto
  next
    case (Inr p)
    obtain frame self' where p: "p = (frame, self')" by (cases p)
    from Inr p have lt: "self_current_frame self < self_end_frame self"
      and pos: "cpos (self_cap self) < length (vframes (cfile (self_cap self)))"
      and fr: "frame = reverse_channels (frame_of (cfile (self_cap self))
                 (vframes (cfile (self_cap self)) ! cpos (self_cap self)))"
      and s': "self' = self\<lparr>self_cap := (self_cap self)\<lparr>cpos := Suc (cpos (self_cap self))\<rparr>,
                            self_current_frame := self_current_frame self + 1\<rparr>"
      by (auto simp: VideoReader_next_def cap_read_def frame_of_def split: if_splits)
    from lt have n: "nat (self_end_frame self - self_current_frame self) =
        Suc (nat (self_end_frame self - (self_current_frame self + 1)))"
      by simp
    have "reader_frames self = frame # reader_frames self'"
      using Inr p by (subst reader_frames.simps) simp
    also have "reader_frames self' =
       map (\<lambda>d. reverse_channels (frame_of (cfile (self_cap self')) d))
         (take (nat (self_end_frame self' - self_current_frame self'))
            (drop (cpos (self_cap self')) (vframes (cfile (self_cap self')))))"
      using "1.IH" Inr p by simp
    finally show ?thesis
      using pos by (simp add: s' fr n Cons_nth_drop_Suc [symmetric])
  qed
qed

lemma loop_body_trace:
  "loop_body g t i frame sess w = (sess', w') \<Longrightarrow>
   trace w' = trace w @ frame_events g i frame sess \<and> sess' = frame_session g i frame sess"
  by (auto simp: loop_body_def frame_events_def frame_session_def Let_def emit_def run_outputs_def
                 writer_write_def split: option.splits if_splits)

lemma frame_loop_trace:
  "trace (snd (frame_loop g t i rd sess w)) = trace w @ loop_events g i (reader_frames rd) sess"
proof (induction g t i rd sess w rule: frame_loop.induct)
  case (1 g t i rd sess w)
  show ?case
  proof (cases "VideoReader_next rd")
    case (Inl err)
    then show ?thesis
      by (subst frame_loop.simps, subst reader_frames.simps) simp
  next
    case (Inr p)
    obtain frame rd' where p: "p = (frame, rd')" by (cases p)
    obtain sess' w' where b: "loop_body g t i frame sess w = (sess', w')"
      by (cases "loop_body g t i frame sess w")
    have rf: "reader_frames rd = frame # reader_frames rd'"
      using Inr p by (subst reader_frames.simps) simp
    have "trace (snd (frame_loop g t i rd sess w)) =
          trace (snd (frame_loop g t (Suc i) rd' sess' w'))"
      using Inr p b by (subst frame_loop.simps) simp
    also have "\<dots> = trace w' @ loop_events g (Suc i) (reader_frames rd') sess'"
      using "1.IH" Inr p b by simp
    finally show ?thesis
      using loop_body_trace [OF b] by (simp add: rf)
  qed
qed



section \<open>The branches of process_video\<close>

lemma add_frames_Nil [simp]: "add_frames v [] = v"
  by (simp add: add_frames_def)

lemma add_frames_append: "add_frames (add_frames v a) b = add_frames v (a @ b)"
  by (simp add: add_frames_def)

lemma written_images_append [simp]:
  "written_images (a @ b) = written_images a @ written_images b"
  by (simp add: written_images_def)

lemma written_images_Nil [simp]: "written_images [] = []"
  by (simp add: written_images_def)

lemma loop_body_files:
  assumes "loop_body g t i frame sess w = (sess', w')" and "files w t = Some v0"
  shows "dirs w' = dirs w \<and>
         files w' = (files w)(t \<mapsto> add_frames v0 (written_images (frame_events g i frame sess)))"
  using assms
  by (auto simp: loop_body_def frame_events_def frame_session_def Let_def emit_def run_outputs_def
        writer_write_def written_images_def add_frames_def map_upd_triv split: if_splits)

lemma frame_loop_files:
  "files w t = Some v0 \<Longrightarrow>
   dirs (snd (frame_loop g t i rd sess w)) = dirs w \<and>
   files (snd (frame_loop g t i rd sess w)) =
     (files w)(t \<mapsto> add_frames v0 (written_images (loop_events g i (reader_frames rd) sess)))"
proof (induction g t i rd sess w arbitrary: v0 rule: frame_loop.induct)
  case (1 g t i rd sess w)
  show ?case
  proof (cases "VideoReader_next rd")
    case (Inl err)
    have "frame_loop g t i rd sess w = (sess, w)"
      using Inl by (subst frame_loop.simps) simp
    moreover have "reader_frames rd = []"
      using Inl by (subst reader_frames.simps) simp
    ultimately show ?thesis using "1.prems" by (simp add: map_upd_triv)
  next
    case (Inr p)
    obtain frame rd' where p: "p = (frame, rd')" by (cases p)
    obtain sess' w' where b: "loop_body g t i frame sess w = (sess', w')"
      by (cases "loop_body g t i frame sess w")
    have rf: "reader_frames rd = frame # reader_frames rd'"
      using Inr p by (subst reader_frames.simps) simp
    have eq: "frame_loop g t i rd sess w = frame_loop g t (Suc i) rd' sess' w'"
      using Inr p b by (subst frame_loop.simps) simp
    from loop_body_files [OF b "1.prems"] loop_body_trace [OF b]
    have d: "dirs w' = dirs w"
      and f: "files w' = (files w)(t \<mapsto> add_frames v0 (written_images (frame_events g i frame sess)))"
      and s: "sess' = frame_session g i frame sess"
      by auto
    from f have t: "files w' t = Some (add_frames v0 (written_images (frame_events g i frame sess)))"
      by simp
    note ih = "1.IH" [OF Inr p [symmetric] b [symmetric] t]
    have "dirs (snd (frame_loop g t i rd sess w)) = dirs w"
      using ih by (simp add: eq d)
    moreover have "files (snd (frame_loop g t i rd sess w)) =
        (files w)(t \<mapsto> add_frames v0 (written_images (loop_events g i (reader_frames rd) sess)))"
    proof -
      have "files (snd (frame_loop g t i rd sess w)) =
            files (snd (frame_loop g t (Suc i) rd' sess' w'))"
        by (simp only: eq)
      also have "\<dots> = (files w')(t \<mapsto>
            add_frames (add_frames v0 (written_images (frame_events g i frame sess)))
              (written_images (loop_events g (Suc i) (reader_frames rd') sess')))"
        using ih by (rule conjunct2)
      also have "\<dots> = (files w)(t \<mapsto> add_frames v0
            (written_images (loop_events g i (reader_frames rd) sess)))"
        by (simp only: f fun_upd_upd add_frames_append rf loop_events.simps written_images_append s)
      finally show ?thesis .
    qed
    ultimately show ?thesis by simp
  qed
qed

lemma VideoReader_init_Some:
  "fs p = Some v \<Longrightarrow>
   \<exists>rd. VideoReader_init fs p s e = Inr rd \<and> self_fps rd = vfps v \<and> cfile (self_cap rd) = v"
  by (simp add: VideoReader_init_def Let_def cap_set_pos_def)

lemma process_video_no_checkpoint:
  "process_video e input_video output_video None num_resblock vsr_scale use_ema start_frame
     end_frame fps fs ds =
   (Raised (ValueError ''The checkpoint file is needed to perform super-resolution.''),
    \<lparr>files = fs, dirs = ds, trace = []\<rparr>)"
  by (simp add: process_video_def)

lemma process_video_cannot_open:
  "fs input_video = None \<Longrightarrow>
   process_video e input_video output_video (Some checkpoint) num_resblock vsr_scale use_ema
     start_frame end_frame fps fs ds =
   (Raised (ValueError (''Could not open video file: '' @ input_video)),
    \<lparr>files = fs, dirs = ds, trace = [EvCapture input_video]\<rparr>)"
  by (simp add: process_video_def VideoReader_init_def emit_def)

lemma process_video_cannot_read:
  "fs input_video = Some v \<Longrightarrow> vframes v = [] \<Longrightarrow>
   process_video e input_video output_video (Some checkpoint) num_resblock vsr_scale use_ema
     start_frame end_frame fps fs ds =
   (Raised (ValueError (''Could not read from video file: '' @ input_video)),
    \<lparr>files = fs, dirs = ds, trace = [EvCapture input_video, EvCapture input_video]\<rparr>)"
  by (simp add: process_video_def VideoReader_init_def emit_def Let_def cap_read_def)

lemma process_video_writer_fails:
  assumes v: "fs input_video = Some v" and ne: "vframes v \<noteq> []"
    and op: "\<not> writer_opens e (output_video @ ''.temp.mp4'')"
  shows "process_video e input_video output_video (Some checkpoint) num_resblock vsr_scale use_ema
     start_frame end_frame fps fs ds =
   (Raised (ValueError (''Could not open video writer for: '' @ output_video)),
    \<lparr>files = fs, dirs = dirs_after output_video fs ds,
     trace = setup_events v input_video output_video vsr_scale fps fs ds\<rparr>)"
proof -
  from ne obtain f rest where fr: "vframes v = f # rest" by (cases "vframes v") auto
  from VideoReader_init_Some [of fs input_video v start_frame end_frame] v
  obtain rd where rd: "VideoReader_init fs input_video start_frame end_frame = Inr rd"
    and fps: "self_fps rd = vfps v" by auto
  show ?thesis
    using v op rd
    by (simp add: process_video_def Let_def emit_def cap_read_def fr reverse_channels_def
          setup_events_def input_shape_of_def output_shape_of_def fps path_exists_def dirs_after_def)
qed

lemma process_video_len_fails:
  assumes v: "fs input_video = Some v" and ne: "vframes v \<noteq> []"
    and op: "writer_opens e (output_video @ ''.temp.mp4'')"
    and rd: "VideoReader_init fs input_video start_frame end_frame = Inr rd"
    and len: "len_builtin rd = Inl err"
  shows "process_video e input_video output_video (Some checkpoint) num_resblock vsr_scale use_ema
     start_frame end_frame fps fs ds =
   (Raised err,
    \<lparr>files = fs(output_video @ ''.temp.mp4'' \<mapsto> temp_file v vsr_scale fps),
     dirs = dirs_after output_video fs ds,
     trace = setup_events v input_video output_video vsr_scale fps fs ds @
       [EvRestore (restore_vars_dict use_ema
          (trainable_variables (graph_of e v num_resblock vsr_scale))) checkpoint]\<rparr>)"
proof -
  from ne obtain f rest where fr: "vframes v = f # rest" by (cases "vframes v") auto
  from VideoReader_init_Some [of fs input_video v start_frame end_frame] v rd
  have fps: "self_fps rd = vfps v" by auto
  show ?thesis
    using v op rd len
    by (simp add: process_video_def Let_def emit_def cap_read_def fr reverse_channels_def
          setup_events_def input_shape_of_def output_shape_of_def fps path_exists_def dirs_after_def
          temp_file_def paddings_of_def graph_of_def)
qed

lemma frame_loop_result:
  assumes "files w t = Some v0"
  shows "snd (frame_loop g t i rd sess w) =
     \<lparr>files = (files w)(t \<mapsto> add_frames v0 (written_images (loop_events g i (reader_frames rd) sess))),
      dirs = dirs w,
      trace = trace w @ loop_events g i (reader_frames rd) sess\<rparr>"
  using frame_loop_files [OF assms, of g i rd sess] frame_loop_trace [of g t i rd sess w]
  by (intro world.equality) simp_all

lemma finish_video_result:
  "finish_video e t output_video total_frames w =
   ((if total_frames = 0 then Raised ZeroDivisionError else Returned),
    \<lparr>files = (os_system e (ffmpeg_command t output_video) (files w))(t := None),
     dirs = dirs w,
     trace = trace w @ [EvRelease, EvSystem (ffmpeg_command t output_video)] @
       (if t \<in> dirs w \<or> os_system e (ffmpeg_command t output_video) (files w) t \<noteq> None
        then [EvRemove t] else [])\<rparr>)"
  by (simp add: finish_video_def Let_def emit_def path_exists_def fun_upd_idem)

lemma process_video_main:
  assumes v: "fs input_video = Some v" and ne: "vframes v \<noteq> []"
    and op: "writer_opens e (output_video @ ''.temp.mp4'')"
    and rd: "VideoReader_init fs input_video start_frame end_frame = Inr rd"
    and len: "len_builtin rd = Inr total_frames"
  shows "process_video e input_video output_video (Some checkpoint) num_resblock vsr_scale use_ema
     start_frame end_frame fps fs ds =
   ((if total_frames = 0 then Raised ZeroDivisionError else Returned),
    \<lparr>files = (files_after_encoder e v output_video num_resblock vsr_scale fps rd fs)
              (output_video @ ''.temp.mp4'' := None),
     dirs = dirs_after output_video fs ds,
     trace = setup_events v input_video output_video vsr_scale fps fs ds @
       [EvRestore (restore_vars_dict use_ema
          (trainable_variables (graph_of e v num_resblock vsr_scale))) checkpoint] @
       loop_events (graph_of e v num_resblock vsr_scale) 0 (reader_frames rd)
         (initial_session v vsr_scale) @
       [EvRelease, EvSystem (ffmpeg_command (output_video @ ''.temp.mp4'') output_video)] @
       (if output_video @ ''.temp.mp4'' \<in> dirs_after output_video fs ds \<or>
           files_after_encoder e v output_video num_resblock vsr_scale fps rd fs
             (output_video @ ''.temp.mp4'') \<noteq> None
        then [EvRemove (output_video @ ''.temp.mp4'')] else [])\<rparr>)"
proof -
  from ne obtain f rest where fr: "vframes v = f # rest" by (cases "vframes v") auto
  from VideoReader_init_Some [of fs input_video v start_frame end_frame] v rd
  have fps: "self_fps rd = vfps v" by auto
  define w1 where "w1 = \<lparr>files = fs(output_video @ ''.temp.mp4'' \<mapsto> temp_file v vsr_scale fps),
     dirs = dirs_after output_video fs ds,
     trace = setup_events v input_video output_video vsr_scale fps fs ds @
       [EvRestore (restore_vars_dict use_ema
          (trainable_variables (graph_of e v num_resblock vsr_scale))) checkpoint]\<rparr>"
  have pv: "process_video e input_video output_video (Some checkpoint) num_resblock vsr_scale use_ema
     start_frame end_frame fps fs ds =
     finish_video e (output_video @ ''.temp.mp4'') output_video total_frames
       (snd (frame_loop (graph_of e v num_resblock vsr_scale) (output_video @ ''.temp.mp4'') 0 rd
          (initial_session v vsr_scale) w1))"
    using v op rd len
    by (simp add: process_video_def Let_def emit_def cap_read_def fr reverse_channels_def
          case_prod_beta setup_events_def input_shape_of_def output_shape_of_def
          paddings_of_def graph_of_def initial_session_def fps path_exists_def dirs_after_def
          temp_file_def w1_def)
  have t1: "files w1 (output_video @ ''.temp.mp4'') = Some (temp_file v vsr_scale fps)"
    by (simp add: w1_def)
  show ?thesis
    unfolding pv frame_loop_result [OF t1] finish_video_result
    by (simp add: w1_def files_after_encoder_def files_after_loop_def)
qed

lemma calls_append [simp]: "calls (a @ b) = calls a @ calls b"
  by (simp add: calls_def)

lemma calls_Nil [simp]: "calls [] = []"
  by (simp add: calls_def)

lemma calls_Cons: "calls (ev # tr) = call_of ev @ calls tr"
  by (simp add: calls_def)

lemma calls_frame_events: "calls (frame_events g i frame sess) = frame_calls i"
  by (simp add: frame_events_def frame_calls_def calls_Cons)

lemma calls_loop_events:
  "calls (loop_events g i frames sess) = concat (map frame_calls [i..<i + length frames])"
proof (induction frames arbitrary: i sess)
  case Nil
  then show ?case by simp
next
  case (Cons frame frames)
  have "[i..<i + Suc (length frames)] = i # [Suc i..<Suc i + length frames]"
    using upt_conv_Cons [of i "i + Suc (length frames)"] by simp
  then show ?case
    by (simp add: calls_frame_events Cons.IH)
qed

lemma calls_setup_events: "calls (setup_events v iv ov sc fps fs ds) = []"
  by (simp add: setup_events_def calls_Cons)

lemma read_frames_append [simp]: "read_frames (a @ b) = read_frames a @ read_frames b"
  by (simp add: read_frames_def)

lemma read_frames_Cons: "read_frames (ev # tr) = read_of ev @ read_frames tr"
  by (simp add: read_frames_def)

lemma read_frames_Nil [simp]: "read_frames [] = []"
  by (simp add: read_frames_def)

lemma read_frames_loop_events: "read_frames (loop_events g i frames sess) = frames"
  by (induction frames arbitrary: i sess) (simp_all add: read_frames_def frame_events_def)

lemma read_frames_setup_events: "read_frames (setup_events v iv ov sc fps fs ds) = []"
  by (simp add: setup_events_def read_frames_def)

lemma structure_without_loop:
  assumes "calls tr = []" and "read_frames tr = []"
  shows "\<exists>pre frames post g sess.
     tr = pre @ loop_events g 0 frames sess @ post \<and>
     calls pre = [] \<and> calls post = [] \<and> read_frames pre = [] \<and> read_frames post = [] \<and>
     (frames \<noteq> [] \<longrightarrow> (\<exists>v. fs iv = Some v \<and> g = graph_of e v nr sc \<and> sess = initial_session v sc))"
  apply (rule exI [of _ tr])
  apply (rule exI [of _ "[]"])
  apply (rule exI [of _ "[]"])
  using assms apply simp
  done

text \<open>Every run: set-up calls, the calls of the loop over some frames, closing calls.\<close>

lemma process_video_structure:
  "\<exists>pre frames post g sess.
     trace (snd (process_video e iv ov ck nr sc ema sf ef fps fs ds)) =
       pre @ loop_events g 0 frames sess @ post \<and>
     calls pre = [] \<and> calls post = [] \<and> read_frames pre = [] \<and> read_frames post = [] \<and>
     (frames \<noteq> [] \<longrightarrow> (\<exists>v. fs iv = Some v \<and> g = graph_of e v nr sc \<and> sess = initial_session v sc))"
proof (cases ck)
  case None
  then show ?thesis
    by (intro structure_without_loop) (simp_all add: process_video_no_checkpoint)
next
  case (Some c)
  show ?thesis
  proof (cases "fs iv")
    case None
    with Some show ?thesis
      by (intro structure_without_loop)
         (simp_all add: process_video_cannot_open calls_Cons read_frames_Cons)
  next
    case v: (Some v)
    show ?thesis
    proof (cases "vframes v = []")
      case True
      with Some v show ?thesis
        by (intro structure_without_loop)
           (simp_all add: process_video_cannot_read calls_Cons read_frames_Cons)
    next
      case ne: False
      show ?thesis
      proof (cases "writer_opens e (ov @ ''.temp.mp4'')")
        case False
        from process_video_writer_fails [where fs = fs and input_video = iv, OF v ne False] Some
        show ?thesis
          by (intro structure_without_loop)
             (simp_all add: calls_setup_events read_frames_setup_events)
      next
        case op: True
        from VideoReader_init_Some [of fs iv v sf ef] v
        obtain rd where rd: "VideoReader_init fs iv sf ef = Inr rd" by auto
        show ?thesis
        proof (cases "len_builtin rd")
          case (Inl err)
          from process_video_len_fails [where fs = fs and input_video = iv, OF v ne op rd Inl] Some
          show ?thesis
            by (intro structure_without_loop)
               (simp_all add: calls_setup_events read_frames_setup_events calls_Cons
                  read_frames_Cons)
        next
          case (Inr total)
          from process_video_main [where fs = fs and input_video = iv, OF v ne op rd Inr] Some
          have tr: "trace (snd (process_video e iv ov ck nr sc ema sf ef fps fs ds)) =
             (setup_events v iv ov sc fps fs ds @
               [EvRestore (restore_vars_dict ema (trainable_variables (graph_of e v nr sc))) c]) @
             loop_events (graph_of e v nr sc) 0 (reader_frames rd) (initial_session v sc) @
             ([EvRelease, EvSystem (ffmpeg_command (ov @ ''.temp.mp4'') ov)] @
              (if ov @ ''.temp.mp4'' \<in> dirs_after ov fs ds \<or>
                  files_after_encoder e v ov nr sc fps rd fs (ov @ ''.temp.mp4'') \<noteq> None
               then [EvRemove (ov @ ''.temp.mp4'')] else []))"
            by simp
          show ?thesis
            apply (rule exI [of _ "setup_events v iv ov sc fps fs ds @
               [EvRestore (restore_vars_dict ema (trainable_variables (graph_of e v nr sc))) c]"])
            apply (rule exI [of _ "reader_frames rd"])
            apply (rule exI [of _ "[EvRelease, EvSystem (ffmpeg_command (ov @ ''.temp.mp4'') ov)] @
              (if ov @ ''.temp.mp4'' \<in> dirs_after ov fs ds \<or>
                  files_after_encoder e v ov nr sc fps rd fs (ov @ ''.temp.mp4'') \<noteq> None
               then [EvRemove (ov @ ''.temp.mp4'')] else [])"])
            apply (rule exI [of _ "graph_of e v nr sc"])
            apply (rule exI [of _ "initial_session v sc"])
            using v apply (simp add: tr calls_setup_events read_frames_setup_events calls_Cons
                read_frames_Cons)
            done
        qed
      qed
    qed
  qed
qed

section \<open>Patterns, pixels and written frames\<close>










lemma clip_floor_range: "0 \<le> \<lfloor>np_clip y 0 255\<rfloor> \<and> \<lfloor>np_clip y 0 255\<rfloor> \<le> 255"
  by (auto simp: np_clip_def min_def max_def le_floor_iff floor_le_iff)

lemma output_pixel_no_wrap: "uint (output_pixel x) = \<lfloor>np_clip (x * 255) 0 255\<rfloor>"
proof -
  have c: "0 \<le> np_clip (x * 255) 0 255" by (simp add: np_clip_def)
  from clip_floor_range [of "x * 255"]
  have "\<lfloor>np_clip (x * 255) 0 255\<rfloor> mod 2 ^ 8 = \<lfloor>np_clip (x * 255) 0 255\<rfloor>"
    by (intro mod_pos_pos_trivial) auto
  with c show ?thesis
    by (simp add: output_pixel_def astype_uint8_def uint_word_of_int take_bit_eq_mod)
qed

lemma astype_uint8_wraps: "astype_uint8 256 = 0 \<and> astype_uint8 300 = 44"
  by (simp add: astype_uint8_def)

lemma values_of_to_output_img:
  "b \<in> set (values_of (to_output_img out)) \<Longrightarrow> \<exists>x. x \<in> set (values_of out) \<and> b = output_pixel x"
  by (auto simp: values_of_def to_output_img_def reverse_channels_def map_elems_def)

lemma write_in_frame_events:
  "EvWrite i img \<in> set (frame_events g j frame sess) \<Longrightarrow>
   \<exists>feed pw. EvOutputs i feed pw \<in> set (frame_events g j frame sess) \<and>
             img = to_output_img (generator g feed pw)"
  by (auto simp: frame_events_def frame_session_def run_outputs_def Let_def split: if_splits)

lemma write_in_loop_events:
  "EvWrite i img \<in> set (loop_events g j frames sess) \<Longrightarrow>
   \<exists>feed pw. EvOutputs i feed pw \<in> set (loop_events g j frames sess) \<and>
             img = to_output_img (generator g feed pw)"
proof (induction frames arbitrary: j sess)
  case Nil
  then show ?case by simp
next
  case (Cons frame frames)
  then show ?case
    using write_in_frame_events [of i img g j frame sess] by fastforce
qed

lemma no_calls_no_write: "calls tr = [] \<Longrightarrow> EvWrite i img \<notin> set tr"
  by (induction tr) (auto simp: calls_Cons)

lemma no_calls_no_outputs: "calls tr = [] \<Longrightarrow> EvOutputs i x pw \<notin> set tr"
  by (induction tr) (auto simp: calls_Cons)

section \<open>Set-up and closing calls\<close>

lemma builds_append [simp]: "builds (a @ b) = builds a @ builds b"
  by (simp add: builds_def)

lemma builds_Nil [simp]: "builds [] = []"
  by (simp add: builds_def)

lemma builds_Cons: "builds (ev # tr) = build_of ev @ builds tr"
  by (simp add: builds_def)

lemma writers_append [simp]: "writers (a @ b) = writers a @ writers b"
  by (simp add: writers_def)

lemma writers_Nil [simp]: "writers [] = []"
  by (simp add: writers_def)

lemma writers_Cons: "writers (ev # tr) = writer_of ev @ writers tr"
  by (simp add: writers_def)

lemma systems_append [simp]: "systems (a @ b) = systems a @ systems b"
  by (simp add: systems_def)

lemma systems_Nil [simp]: "systems [] = []"
  by (simp add: systems_def)

lemma systems_Cons: "systems (ev # tr) = system_of ev @ systems tr"
  by (simp add: systems_def)

lemma removes_append [simp]: "removes (a @ b) = removes a @ removes b"
  by (simp add: removes_def)

lemma removes_Nil [simp]: "removes [] = []"
  by (simp add: removes_def)

lemma removes_Cons: "removes (ev # tr) = remove_of ev @ removes tr"
  by (simp add: removes_def)

lemma written_images_Cons: "written_images (ev # tr) = written_of ev @ written_images tr"
  by (simp add: written_images_def)

lemma loop_events_no_setup:
  "builds (loop_events g i frames sess) = [] \<and> writers (loop_events g i frames sess) = [] \<and>
   systems (loop_events g i frames sess) = []"
  by (induction frames arbitrary: i sess)
     (simp_all add: frame_events_def builds_Cons writers_Cons systems_Cons)

lemma loop_events_no_remove: "removes (loop_events g i frames sess) = []"
  by (induction frames arbitrary: i sess) (simp_all add: frame_events_def removes_Cons)

lemma setup_events_projections:
  "builds (setup_events v iv ov sc fps fs ds) = [(input_shape_of v, output_shape_of v sc)] \<and>
   writers (setup_events v iv ov sc fps fs ds) =
     [(ov @ ''.temp.mp4'', if fps = 0 then vfps v else fps,
       (int (vwidth v) * sc, int (vheight v) * sc))] \<and>
   systems (setup_events v iv ov sc fps fs ds) = []"
  by (simp add: setup_events_def builds_Cons writers_Cons systems_Cons)

lemma setup_events_no_remove:
  "removes (setup_events v iv ov sc fps fs ds) = [] \<and>
   written_images (setup_events v iv ov sc fps fs ds) = []"
  by (simp add: setup_events_def removes_Cons written_images_Cons)

text \<open>After the first frame was read, the run starts with the set-up calls.\<close>

lemma process_video_after_setup:
  assumes v: "fs iv = Some v" and ne: "vframes v \<noteq> []"
  shows "\<exists>rest. trace (snd (process_video e iv ov (Some c) nr sc ema sf ef fps fs ds)) =
            setup_events v iv ov sc fps fs ds @ rest \<and>
          builds rest = [] \<and> writers rest = []"
proof (cases "writer_opens e (ov @ ''.temp.mp4'')")
  case False
  from process_video_writer_fails [where fs = fs and input_video = iv, OF v ne False]
  show ?thesis by simp
next
  case op: True
  from VideoReader_init_Some [of fs iv v sf ef] v
  obtain rd where rd: "VideoReader_init fs iv sf ef = Inr rd" by auto
  show ?thesis
  proof (cases "len_builtin rd")
    case (Inl err)
    from process_video_len_fails [where fs = fs and input_video = iv, OF v ne op rd Inl]
    show ?thesis by (simp add: builds_Cons writers_Cons)
  next
    case (Inr total)
    from process_video_main [where fs = fs and input_video = iv, OF v ne op rd Inr]
    show ?thesis by (simp add: builds_Cons writers_Cons loop_events_no_setup)
  qed
qed

text \<open>A run that returns went through every stage.\<close>

section \<open>Runs that return\<close>

lemma process_video_Returned:
  assumes "fst (process_video e iv ov ck nr sc ema sf ef fps fs ds) = Returned"
  shows "\<exists>c v rd total. ck = Some c \<and> fs iv = Some v \<and> vframes v \<noteq> [] \<and>
           writer_opens e (ov @ ''.temp.mp4'') \<and> VideoReader_init fs iv sf ef = Inr rd \<and>
           len_builtin rd = Inr total \<and> total \<noteq> 0"
proof (cases ck)
  case None
  with assms show ?thesis by (simp add: process_video_no_checkpoint)
next
  case (Some c)
  show ?thesis
  proof (cases "fs iv")
    case None
    with assms Some show ?thesis by (simp add: process_video_cannot_open)
  next
    case v: (Some v)
    show ?thesis
    proof (cases "vframes v = []")
      case True
      with assms Some v show ?thesis by (simp add: process_video_cannot_read)
    next
      case ne: False
      show ?thesis
      proof (cases "writer_opens e (ov @ ''.temp.mp4'')")
        case False
        from process_video_writer_fails [where fs = fs and input_video = iv, OF v ne False]
          assms Some
        show ?thesis by simp
      next
        case op: True
        from VideoReader_init_Some [of fs iv v sf ef] v
        obtain rd where rd: "VideoReader_init fs iv sf ef = Inr rd" by auto
        show ?thesis
        proof (cases "len_builtin rd")
          case (Inl err)
          from process_video_len_fails [where fs = fs and input_video = iv, OF v ne op rd Inl]
            assms Some
          show ?thesis by simp
        next
          case (Inr total)
          from process_video_main [where fs = fs and input_video = iv, OF v ne op rd Inr]
            assms Some
          have "total \<noteq> 0" by (auto split: if_splits)
          with Some v ne op rd Inr show ?thesis by simp
        qed
      qed
    qed
  qed
qed

section \<open>The calls of the loop, counted\<close>

lemma expected_calls_Suc: "expected_calls (Suc n) = expected_calls n @ frame_calls n"
  by (simp add: expected_calls_def)

lemma expected_calls_0 [simp]: "expected_calls 0 = []"
  by (simp add: expected_calls_def)



lemma calls_loop_events_expected:
  "calls (loop_events g 0 frames sess) = expected_calls (length frames)"
  using calls_loop_events [of g 0 frames sess] by (simp add: expected_calls_def)

lemma process_video_calls:
  "calls (trace (snd (process_video e iv ov ck nr sc ema sf ef fps fs ds))) =
     expected_calls (length (read_frames (trace (snd (process_video e iv ov ck nr sc ema sf ef fps fs ds)))))"
proof -
  from process_video_structure [of e iv ov ck nr sc ema sf ef fps fs ds]
  obtain pre frames post g sess where
    "trace (snd (process_video e iv ov ck nr sc ema sf ef fps fs ds)) =
           pre @ loop_events g 0 frames sess @ post"
    and "calls pre = []" and "calls post = []" and "read_frames pre = []" and "read_frames post = []"
    by blast
  then show ?thesis
    by (simp add: calls_loop_events_expected read_frames_loop_events)
qed


lemma VideoReader_init_Inr:
  "VideoReader_init fs p s e = Inr rd \<Longrightarrow> fs p = Some (cfile (self_cap rd))"
  by (auto simp: VideoReader_init_def Let_def cap_set_pos_def split: option.splits if_splits)


section \<open>The frames written, in order\<close>

lemma output_calls_append [simp]: "output_calls (a @ b) = output_calls a @ output_calls b"
  by (simp add: output_calls_def)

lemma output_calls_Nil [simp]: "output_calls [] = []"
  by (simp add: output_calls_def)

lemma output_calls_Cons: "output_calls (ev # tr) = output_of ev @ output_calls tr"
  by (simp add: output_calls_def)

lemma written_loop_events:
  "written_images (loop_events g i frames sess) =
     drop (5 - i) (map (\<lambda>(x, pw). to_output_img (generator g x pw))
                     (output_calls (loop_events g i frames sess)))"
proof (induction frames arbitrary: i sess)
  case Nil
  then show ?case by simp
next
  case (Cons frame frames)
  have w: "written_images (frame_events g i frame sess) =
      (if i \<ge> 5 then [to_output_img (generator g (normalize_frame frame)
          (pre_warp (if i \<noteq> 0 then run_before_ops g sess (normalize_frame frame) else sess)))]
       else [])"
    by (simp add: frame_events_def frame_session_def run_outputs_def Let_def written_images_Cons)
  have o: "output_calls (frame_events g i frame sess) =
      [(normalize_frame frame,
        pre_warp (if i \<noteq> 0 then run_before_ops g sess (normalize_frame frame) else sess))]"
    by (simp add: frame_events_def output_calls_Cons)
  show ?case
  proof (cases "i \<ge> 5")
    case True
    then show ?thesis
      by (simp add: w o Cons.IH)
  next
    case False
    then have "5 - i = Suc (5 - Suc i)" by simp
    then show ?thesis
      using False by (simp add: w o Cons.IH)
  qed
qed

lemma setup_events_no_outputs: "output_calls (setup_events v iv ov sc fps fs ds) = []"
  by (simp add: setup_events_def output_calls_Cons)

section \<open>What the generator reads\<close>

lemma outputs_in_frame_events:
  "EvOutputs i x pw \<in> set (frame_events g j frame sess) \<longleftrightarrow>
     i = j \<and> x = normalize_frame frame \<and>
     pw = pre_warp (if j \<noteq> 0 then run_before_ops g sess (normalize_frame frame) else sess)"
  by (auto simp: frame_events_def)

lemma outputs_index_ge:
  "EvOutputs i x pw \<in> set (loop_events g j frames sess) \<Longrightarrow> j \<le> i"
proof (induction frames arbitrary: j sess)
  case Nil
  then show ?case by simp
next
  case (Cons frame frames)
  then show ?case
    by (fastforce simp: outputs_in_frame_events)
qed

lemma first_outputs:
  assumes "EvOutputs j x pw \<in> set (loop_events g j frames sess)"
  shows "pw = (if j = 0 then pre_warp sess else flow_warp g (pre_inputs sess) x (pre_gen sess))"
proof (cases frames)
  case Nil
  with assms show ?thesis by simp
next
  case (Cons frame rest)
  from outputs_index_ge [of j x pw g "Suc j" rest "frame_session g j frame sess"]
  have "EvOutputs j x pw \<notin> set (loop_events g (Suc j) rest (frame_session g j frame sess))"
    by auto
  with assms Cons have "EvOutputs j x pw \<in> set (frame_events g j frame sess)" by simp
  then show ?thesis
    by (auto simp: outputs_in_frame_events run_before_ops_def)
qed

lemma consecutive_outputs:
  "EvOutputs i x' pw' \<in> set (loop_events g j frames sess) \<Longrightarrow>
   EvOutputs (Suc i) x pw \<in> set (loop_events g j frames sess) \<Longrightarrow>
   pw = flow_warp g x' x (generator g x' pw')"
proof (induction frames arbitrary: j sess)
  case Nil
  then show ?case by simp
next
  case (Cons frame frames)
  let ?sess2 = "frame_session g j frame sess"
  show ?case
  proof (cases "EvOutputs i x' pw' \<in> set (frame_events g j frame sess)")
    case True
    then have i: "i = j" and x': "x' = normalize_frame frame"
      and pw': "pw' = pre_warp (if j \<noteq> 0 then run_before_ops g sess (normalize_frame frame) else sess)"
      by (simp_all add: outputs_in_frame_events)
    from Cons.prems(2) i have "EvOutputs (Suc j) x pw \<in> set (loop_events g (Suc j) frames ?sess2)"
      by (auto simp: outputs_in_frame_events)
    from first_outputs [OF this]
    have "pw = flow_warp g (pre_inputs ?sess2) x (pre_gen ?sess2)" by simp
    then show ?thesis
      by (simp add: frame_session_def run_outputs_def Let_def x' pw')
  next
    case False
    with Cons.prems(1) have in1: "EvOutputs i x' pw' \<in> set (loop_events g (Suc j) frames ?sess2)"
      by simp
    from outputs_index_ge [OF in1] have "Suc i \<noteq> j" by simp
    with Cons.prems(2) have in2: "EvOutputs (Suc i) x pw \<in> set (loop_events g (Suc j) frames ?sess2)"
      by (auto simp: outputs_in_frame_events)
    from Cons.IH [OF in1 in2] show ?thesis .
  qed
qed

lemma in_expected_calls: "(c, i) \<in> set (expected_calls n) \<Longrightarrow> i < n"
  by (induction n) (auto simp: expected_calls_Suc frame_calls_def split: if_splits)

lemma before_not_first: "(CBefore, 0) \<notin> set (expected_calls n)"
  by (induction n) (auto simp: expected_calls_Suc frame_calls_def)

lemma before_precedes_outputs:
  "0 < i \<Longrightarrow> i < n \<Longrightarrow> \<exists>a b. expected_calls n = a @ [(CBefore, i), (COutputs, i)] @ b"
proof (induction n)
  case 0
  then show ?case by simp
next
  case (Suc n)
  show ?case
  proof (cases "i = n")
    case True
    with Suc.prems have "expected_calls (Suc n) =
        (expected_calls n @ [(CRead, i)]) @ [(CBefore, i), (COutputs, i)] @
        (if 5 \<le> i then [(CWrite, i)] else [])"
      by (simp add: expected_calls_Suc frame_calls_def)
    then show ?thesis by blast
  next
    case False
    with Suc obtain a b where "expected_calls n = a @ [(CBefore, i), (COutputs, i)] @ b"
      by fastforce
    then have "expected_calls (Suc n) = a @ [(CBefore, i), (COutputs, i)] @ (b @ frame_calls n)"
      by (simp add: expected_calls_Suc)
    then show ?thesis by blast
  qed
qed

lemma demo_calls:
  "calls demo_trace = expected_calls 7"
  by (simp add: demo_trace_def calls_Cons expected_calls_def frame_calls_def upt_rec)

section \<open>What the generator is fed\<close>

lemma fed_frames_append [simp]: "fed_frames (a @ b) = fed_frames a @ fed_frames b"
  by (simp add: fed_frames_def)

lemma fed_frames_Nil [simp]: "fed_frames [] = []"
  by (simp add: fed_frames_def)

lemma fed_frames_Cons: "fed_frames (ev # tr) = fed_of ev @ fed_frames tr"
  by (simp add: fed_frames_def)

lemma fed_frames_loop_events:
  "fed_frames (loop_events g i frames sess) = map normalize_frame frames"
  by (induction frames arbitrary: i sess) (simp_all add: frame_events_def fed_frames_Cons)

lemma fed_frames_setup_events: "fed_frames (setup_events v iv ov sc fps fs ds) = []"
  by (simp add: setup_events_def fed_frames_Cons)

lemma before_in_loop_events:
  "EvBefore i x \<in> set (loop_events g j frames sess) \<Longrightarrow>
   \<exists>pw. EvOutputs i x pw \<in> set (loop_events g j frames sess)"
proof (induction frames arbitrary: j sess)
  case Nil
  then show ?case by simp
next
  case (Cons frame frames)
  show ?case
  proof (cases "EvBefore i x \<in> set (frame_events g j frame sess)")
    case True
    then have "EvOutputs i x (pre_warp (run_before_ops g sess (normalize_frame frame)))
                 \<in> set (frame_events g j frame sess)"
      by (auto simp: frame_events_def split: if_splits)
    then show ?thesis by auto
  next
    case False
    with Cons.prems have "EvBefore i x \<in> set (loop_events g (Suc j) frames (frame_session g j frame sess))"
      by simp
    from Cons.IH [OF this] show ?thesis by auto
  qed
qed

lemma values_of_normalize_frame:
  "values_of (normalize_frame frame) = map (\<lambda>b. real (unat b) / 255) (values_of frame)"
  by (simp add: values_of_def normalize_frame_def map_elems_def map_concat)

lemma normalized_value_range:
  assumes "y \<in> set (values_of (normalize_frame frame))"
  shows "0 \<le> y \<and> y \<le> 1"
proof -
  from assms obtain b :: uint8 where y: "y = real (unat b) / 255"
    by (auto simp: values_of_normalize_frame)
  define r where "r = real (unat b)"
  have "unat b < 2 ^ 8" using unsigned_less [of b, where ?'a = nat] by simp
  then have "unat b \<le> 255" by simp
  then have "real (unat b) \<le> real 255" by (rule of_nat_mono)
  then have "r \<le> 255" unfolding r_def by simp
  moreover have "0 \<le> r" unfolding r_def by (rule of_nat_0_le_iff)
  moreover have "y = r / 255" by (simp only: y r_def)
  ultimately show ?thesis by simp
qed

section \<open>The example run\<close>

lemma output_pixel_demo: "output_pixel 1 = 255 \<and> output_pixel 0 = 0 \<and>
   output_pixel (5 / 255) = 5 \<and> output_pixel (6 / 255) = 6"
  by (simp add: output_pixel_def np_clip_def astype_uint8_def)

lemma demo_reader_init: "VideoReader_init demo_files ''in.mp4'' 0 (- 1) = Inr demo_reader"
  by (simp add: VideoReader_init_def demo_files_def demo_video_def demo_reader_def Let_def)

lemma demo_reader_frames:
  "reader_frames demo_reader =
     [demo_rgb 0, demo_rgb 1, demo_rgb 2, demo_rgb 3, demo_rgb 4, demo_rgb 5, demo_rgb 6]"
  by (simp add: reader_frames_eq demo_reader_def demo_video_def demo_pixels_def demo_rgb_def
        frame_of_def reverse_channels_def)

lemma demo_normalize: "normalize_frame (demo_rgb n) = demo_fed (real (unat (of_nat n :: uint8)) / 255)"
  by (simp add: normalize_frame_def map_elems_def demo_rgb_def demo_fed_def)

lemma demo_graph_of: "graph_of demo_env demo_video 10 2 = demo_graph"
  by (simp add: graph_of_def demo_env_def)

lemma demo_frame_session:
  "frame_session demo_graph i (demo_rgb n) sess =
     \<lparr>pre_inputs = normalize_frame (demo_rgb n), pre_gen = normalize_frame (demo_rgb n),
      pre_warp = (if i \<noteq> 0 then pre_gen sess else pre_warp sess)\<rparr>"
  by (simp add: frame_session_def run_outputs_def run_before_ops_def demo_graph_def Let_def)

lemma output_pixel_demo2: "output_pixel (1 / 51) = 5 \<and> output_pixel (2 / 85) = 6"
  by (simp add: output_pixel_def np_clip_def astype_uint8_def)

lemma demo_to_output_img:
  "to_output_img (demo_fed (1 / 51)) = demo_bgr 5 \<and> to_output_img (demo_fed (2 / 85)) = demo_bgr 6"
  by (simp add: to_output_img_def map_elems_def reverse_channels_def demo_fed_def demo_bgr_def
        output_pixel_demo output_pixel_demo2)

lemma demo_before_ops: "pre_warp (run_before_ops demo_graph sess x) = pre_gen sess"
  by (simp add: run_before_ops_def demo_graph_def)

lemma demo_loop_events:
  "loop_events demo_graph 0 (reader_frames demo_reader) (initial_session demo_video 2) =
     [EvRead 0 (demo_rgb 0), EvOutputs 0 (demo_fed 0) (tf_zeros [1, 2, 2, 3]),
      EvRead 1 (demo_rgb 1), EvBefore 1 (demo_fed (1 / 255)),
      EvOutputs 1 (demo_fed (1 / 255)) (demo_fed 0),
      EvRead 2 (demo_rgb 2), EvBefore 2 (demo_fed (2 / 255)),
      EvOutputs 2 (demo_fed (2 / 255)) (demo_fed (1 / 255)),
      EvRead 3 (demo_rgb 3), EvBefore 3 (demo_fed (3 / 255)),
      EvOutputs 3 (demo_fed (3 / 255)) (demo_fed (2 / 255)),
      EvRead 4 (demo_rgb 4), EvBefore 4 (demo_fed (4 / 255)),
      EvOutputs 4 (demo_fed (4 / 255)) (demo_fed (3 / 255)),
      EvRead 5 (demo_rgb 5), EvBefore 5 (demo_fed (5 / 255)),
      EvOutputs 5 (demo_fed (5 / 255)) (demo_fed (4 / 255)),
      EvWrite 5 (demo_bgr 5),
      EvRead 6 (demo_rgb 6), EvBefore 6 (demo_fed (6 / 255)),
      EvOutputs 6 (demo_fed (6 / 255)) (demo_fed (5 / 255)),
      EvWrite 6 (demo_bgr 6)]"
  by (simp add: demo_reader_frames frame_events_def demo_frame_session demo_normalize
        demo_before_ops initial_session_def output_shape_of_def
        demo_video_def demo_to_output_img)

lemma demo_setup_events:
  "setup_events demo_video ''in.mp4'' ''out.mp4'' 2 0 demo_files {} =
     [EvCapture ''in.mp4'', EvCapture ''in.mp4'', EvBuildGraph [1, 1, 1, 3] [1, 2, 2, 3],
      EvWriter ''out.mp4.temp.mp4'' 30 (2, 2)]"
  by (simp add: setup_events_def input_shape_of_def output_shape_of_def demo_video_def
        os_path_dirname_def)

lemma demo_restore:
  "restore_vars_dict True (trainable_variables demo_graph) =
     VarDict [(''generator/conv/kernel/ExponentialMovingAverage'', ''generator/conv/kernel:0'')]"
  by (simp add: restore_vars_dict_def restore_entry_def re_match_def re_atom_of_def drop_last2_def
        demo_graph_def)

lemma demo_run_main:
  "demo_run =
     (Returned,
      \<lparr>files = (files_after_encoder demo_env demo_video ''out.mp4'' 10 2 0 demo_reader demo_files)
                (''out.mp4.temp.mp4'' := None),
       dirs = {}, trace = demo_trace\<rparr>)"
proof -
  have v: "demo_files ''in.mp4'' = Some demo_video" by (simp add: demo_files_def)
  have ne: "vframes demo_video \<noteq> []" by (simp add: demo_video_def)
  have op: "writer_opens demo_env (''out.mp4'' @ ''.temp.mp4'')" by (simp add: demo_env_def)
  have len: "len_builtin demo_reader = Inr 7"
    by (simp add: len_builtin_def VideoReader_len_def demo_reader_def)
  have enc: "files_after_encoder demo_env demo_video ''out.mp4'' 10 2 0 demo_reader demo_files
               ''out.mp4.temp.mp4'' \<noteq> None"
    by (simp add: files_after_encoder_def files_after_loop_def demo_env_def)
  show ?thesis
    unfolding demo_run_def
    by (simp add: process_video_main [where fs = demo_files and input_video = "''in.mp4''",
            OF v ne op demo_reader_init len]
          demo_setup_events demo_graph_of demo_restore demo_loop_events demo_trace_def
          dirs_after_def os_path_dirname_def ffmpeg_command_def enc)
qed

section \<open>C1: the restore map when EMA variables are used\<close>



text \<open>
  The script calls \<^verbatim>\<open>re.match(v.name, '.*global_step.*')\<close>: the variable name is the
  pattern and the pattern is the string. The test fails for every variable name, so the
  first branch of the loop is never taken. A trainable variable named after the global
  step, which the graph of this script does not contain, would be stored under its
  ExponentialMovingAverage key as well; only for such a name do the two orders of the
  arguments differ.
\<close>

lemma swapped_arguments_on_global_step_name:
  "re_match ''.*global_step.*'' ''generator/global_step_gain:0'' \<and>
   \<not> re_match ''generator/global_step_gain:0'' ''.*global_step.*'' \<and>
   restore_vars_dict True [''generator/conv/kernel:0'', ''generator/global_step_gain:0''] =
     VarDict [(''generator/conv/kernel/ExponentialMovingAverage'', ''generator/conv/kernel:0''),
              (''generator/global_step_gain/ExponentialMovingAverage'',
               ''generator/global_step_gain:0'')]"
  by (simp add: re_match_def restore_vars_dict_def restore_entry_def drop_last2_def re_atom_of_def)

section \<open>C2: which frames are written\<close>



section \<open>C3: the warp update and the generator\<close>

text \<open>
  C3. In every run, \<^verbatim>\<open>before_ops\<close> is never run for the frame of index 0, and for every
  later frame the generator runs on, \<^verbatim>\<open>before_ops\<close> for that frame is the call right before
  the generator's. The generator run of frame 0 reads \<^verbatim>\<open>pre_warp\<close> as the zeros of the
  output shape. For two successive frames, the \<^verbatim>\<open>pre_warp\<close> the generator reads at the
  later one is what the flow and warp network gives for the earlier fed frame, the later
  fed frame and the generator's output at the earlier frame.
\<close>

theorem warp_before_generator:
  "(CBefore, 0) \<notin> set (calls (trace (snd (process_video e iv ov ck nr sc ema sf ef fps fs ds)))) \<and>
   (\<forall>i. 0 < i \<and>
        (COutputs, i) \<in> set (calls (trace (snd (process_video e iv ov ck nr sc ema sf ef fps fs ds)))) \<longrightarrow>
        (\<exists>a b. calls (trace (snd (process_video e iv ov ck nr sc ema sf ef fps fs ds))) =
                 a @ [(CBefore, i), (COutputs, i)] @ b)) \<and>
   (\<forall>x pw. EvOutputs 0 x pw \<in> set (trace (snd (process_video e iv ov ck nr sc ema sf ef fps fs ds))) \<longrightarrow>
        (\<exists>v. fs iv = Some v \<and> pw = tf_zeros [1, int (vheight v) * sc, int (vwidth v) * sc, 3])) \<and>
   (\<forall>i x' pw' x pw.
        EvOutputs i x' pw' \<in> set (trace (snd (process_video e iv ov ck nr sc ema sf ef fps fs ds))) \<and>
        EvOutputs (Suc i) x pw \<in> set (trace (snd (process_video e iv ov ck nr sc ema sf ef fps fs ds))) \<longrightarrow>
        (\<exists>v. fs iv = Some v \<and>
             pw = flow_warp (graph_of e v nr sc) x' x (generator (graph_of e v nr sc) x' pw')))"
proof -
  let ?tr = "trace (snd (process_video e iv ov ck nr sc ema sf ef fps fs ds))"
  let ?n = "length (read_frames ?tr)"
  have c: "calls ?tr = expected_calls ?n" by (rule process_video_calls)
  from process_video_structure [of e iv ov ck nr sc ema sf ef fps fs ds]
  obtain pre frames post g sess where
    tr: "?tr = pre @ loop_events g 0 frames sess @ post"
    and pre: "calls pre = []" and post: "calls post = []"
    and g: "frames \<noteq> [] \<longrightarrow> (\<exists>v. fs iv = Some v \<and> g = graph_of e v nr sc \<and> sess = initial_session v sc)"
    by blast
  have inl: "\<And>i x pw. EvOutputs i x pw \<in> set ?tr \<Longrightarrow>
       EvOutputs i x pw \<in> set (loop_events g 0 frames sess)"
    using tr no_calls_no_outputs [OF pre] no_calls_no_outputs [OF post] by auto
  have 1: "(CBefore, 0) \<notin> set (calls ?tr)"
    unfolding c by (rule before_not_first)
  have 2: "\<forall>i. 0 < i \<and> (COutputs, i) \<in> set (calls ?tr) \<longrightarrow>
        (\<exists>a b. calls ?tr = a @ [(CBefore, i), (COutputs, i)] @ b)"
    unfolding c using in_expected_calls before_precedes_outputs by blast
  have 3: "\<forall>x pw. EvOutputs 0 x pw \<in> set ?tr \<longrightarrow>
        (\<exists>v. fs iv = Some v \<and> pw = tf_zeros [1, int (vheight v) * sc, int (vwidth v) * sc, 3])"
  proof (intro allI impI)
    fix x pw
    assume "EvOutputs 0 x pw \<in> set ?tr"
    then have l: "EvOutputs 0 x pw \<in> set (loop_events g 0 frames sess)" by (rule inl)
    then have "frames \<noteq> []" by auto
    with g obtain v where v: "fs iv = Some v" and s: "sess = initial_session v sc" by blast
    from first_outputs [OF l] have "pw = pre_warp sess" by simp
    with v s show "\<exists>v. fs iv = Some v \<and> pw = tf_zeros [1, int (vheight v) * sc, int (vwidth v) * sc, 3]"
      by (simp add: initial_session_def output_shape_of_def)
  qed
  have 4: "\<forall>i x' pw' x pw. EvOutputs i x' pw' \<in> set ?tr \<and> EvOutputs (Suc i) x pw \<in> set ?tr \<longrightarrow>
        (\<exists>v. fs iv = Some v \<and>
             pw = flow_warp (graph_of e v nr sc) x' x (generator (graph_of e v nr sc) x' pw'))"
  proof (intro allI impI)
    fix i x' pw' x pw
    assume a: "EvOutputs i x' pw' \<in> set ?tr \<and> EvOutputs (Suc i) x pw \<in> set ?tr"
    then have l1: "EvOutputs i x' pw' \<in> set (loop_events g 0 frames sess)"
      and l2: "EvOutputs (Suc i) x pw \<in> set (loop_events g 0 frames sess)"
      by (auto intro: inl)
    from l1 have "frames \<noteq> []" by auto
    with g obtain v where v: "fs iv = Some v" and gv: "g = graph_of e v nr sc" by blast
    from consecutive_outputs [OF l1 l2] v gv
    show "\<exists>v. fs iv = Some v \<and>
             pw = flow_warp (graph_of e v nr sc) x' x (generator (graph_of e v nr sc) x' pw')"
      by simp
  qed
  from 1 2 3 4 show ?thesis by blast
qed

text \<open>
  On the example run: frame 0 sees zeros; the generator of the example returns the fed
  frame and its warp returns the previous output, so frame 1 sees the fed frame 0.
\<close>

theorem warp_before_generator_witness:
  "EvOutputs 0 (demo_fed 0) (tf_zeros [1, 2, 2, 3]) \<in> set (trace (snd (process_video demo_env
      ''in.mp4'' ''out.mp4'' (Some ''model.ckpt'') 10 2 True 0 (- 1) 0 demo_files {}))) \<and>
   EvOutputs (Suc 0) (demo_fed (1 / 255)) (demo_fed 0) \<in> set (trace (snd (process_video demo_env
      ''in.mp4'' ''out.mp4'' (Some ''model.ckpt'') 10 2 True 0 (- 1) 0 demo_files {}))) \<and>
   (COutputs, 1) \<in> set (calls (trace (snd (process_video demo_env
      ''in.mp4'' ''out.mp4'' (Some ''model.ckpt'') 10 2 True 0 (- 1) 0 demo_files {})))) \<and>
   (\<exists>a b. calls (trace (snd (process_video demo_env ''in.mp4'' ''out.mp4'' (Some ''model.ckpt'') 10 2
              True 0 (- 1) 0 demo_files {}))) = a @ [(CBefore, 1), (COutputs, 1)] @ b) \<and>
   (\<exists>v. demo_files ''in.mp4'' = Some v \<and>
        tf_zeros [1, 2, 2, 3] = tf_zeros [1, int (vheight v) * 2, int (vwidth v) * 2, 3]) \<and>
   (\<exists>v. demo_files ''in.mp4'' = Some v \<and>
        demo_fed 0 = flow_warp (graph_of demo_env v 10 2) (demo_fed 0) (demo_fed (1 / 255))
                       (generator (graph_of demo_env v 10 2) (demo_fed 0) (tf_zeros [1, 2, 2, 3])))"
proof -
  let ?tr = "trace (snd (process_video demo_env ''in.mp4'' ''out.mp4'' (Some ''model.ckpt'') 10 2
      True 0 (- 1) 0 demo_files {}))"
  have tr: "?tr = demo_trace"
    using demo_run_main by (simp add: demo_run_def)
  have o0: "EvOutputs 0 (demo_fed 0) (tf_zeros [1, 2, 2, 3]) \<in> set ?tr"
    unfolding tr by (simp add: demo_trace_def)
  have o1: "EvOutputs (Suc 0) (demo_fed (1 / 255)) (demo_fed 0) \<in> set ?tr"
    unfolding tr by (simp add: demo_trace_def)
  have c1: "(COutputs, 1) \<in> set (calls ?tr)"
    unfolding tr by (simp add: demo_trace_def calls_Cons)
  note w = warp_before_generator [of demo_env "''in.mp4''" "''out.mp4''" "Some ''model.ckpt''" 10 2
      True 0 "- 1" 0 demo_files "{}"]
  from w c1 have b: "\<exists>a b. calls ?tr = a @ [(CBefore, 1), (COutputs, 1)] @ b"
    by simp
  from w o0 have z: "\<exists>v. demo_files ''in.mp4'' = Some v \<and>
        tf_zeros [1, 2, 2, 3] = tf_zeros [1, int (vheight v) * 2, int (vwidth v) * 2, 3]"
    by blast
  from w o0 o1 have f: "\<exists>v. demo_files ''in.mp4'' = Some v \<and>
        demo_fed 0 = flow_warp (graph_of demo_env v 10 2) (demo_fed 0) (demo_fed (1 / 255))
                       (generator (graph_of demo_env v 10 2) (demo_fed 0) (tf_zeros [1, 2, 2, 3]))"
    by blast
  from o0 o1 c1 b z f show ?thesis by blast
qed

section \<open>C4: the output shape and the writer's frame size\<close>

text \<open>
  C4. When the first frame of the input has height h and width w, the graph is built once
  with input shape [1, h, w, 3] and output shape [1, h * vsr_scale, w * vsr_scale, 3], and
  the one writer is opened on the temporary path with frame size
  (w * vsr_scale, h * vsr_scale).
\<close>

theorem output_is_upscaled:
  assumes v: "fs iv = Some v"
    and f0: "fst (cap_read \<lparr>cfile = v, cpos = 0\<rparr>) = Some first_frame"
  shows "builds (trace (snd (process_video e iv ov (Some c) nr sc ema sf ef fps fs ds))) =
           [([1, int (dim0 first_frame), int (dim1 first_frame), 3],
             [1, int (dim0 first_frame) * sc, int (dim1 first_frame) * sc, 3])] \<and>
         writers (trace (snd (process_video e iv ov (Some c) nr sc ema sf ef fps fs ds))) =
           [(ov @ ''.temp.mp4'', if fps = 0 then vfps v else fps,
             (int (dim1 first_frame) * sc, int (dim0 first_frame) * sc))]"
proof -
  from f0 have ne: "vframes v \<noteq> []"
    and d: "dim0 first_frame = vheight v" "dim1 first_frame = vwidth v"
    by (auto simp: cap_read_def split: if_splits)
  from process_video_after_setup [where fs = fs and iv = iv, OF v ne, of e ov c nr sc ema sf ef fps ds]
  obtain rest where "trace (snd (process_video e iv ov (Some c) nr sc ema sf ef fps fs ds)) =
            setup_events v iv ov sc fps fs ds @ rest" and "builds rest = []" and "writers rest = []"
    by blast
  then show ?thesis
    by (simp add: setup_events_projections input_shape_of_def output_shape_of_def d)
qed

text \<open>On the example: frames of 1 by 1, scale 2, a writer of 2 by 2.\<close>

theorem output_is_upscaled_witness:
  "demo_files ''in.mp4'' = Some demo_video \<and>
   fst (cap_read \<lparr>cfile = demo_video, cpos = 0\<rparr>) = Some (demo_bgr 0) \<and>
   builds (trace (snd (process_video demo_env ''in.mp4'' ''out.mp4'' (Some ''model.ckpt'') 10 2 True
      0 (- 1) 0 demo_files {}))) = [([1, 1, 1, 3], [1, 2, 2, 3])] \<and>
   writers (trace (snd (process_video demo_env ''in.mp4'' ''out.mp4'' (Some ''model.ckpt'') 10 2 True
      0 (- 1) 0 demo_files {}))) = [(''out.mp4.temp.mp4'', 30, (2, 2))]"
proof -
  have v: "demo_files ''in.mp4'' = Some demo_video" by (simp add: demo_files_def)
  have f0: "fst (cap_read \<lparr>cfile = demo_video, cpos = 0\<rparr>) = Some (demo_bgr 0)"
    by (simp add: cap_read_def demo_video_def demo_pixels_def demo_bgr_def)
  from output_is_upscaled [where fs = demo_files and iv = "''in.mp4''", OF v f0,
      of demo_env "''out.mp4''" "''model.ckpt''" 10 2 True 0 "- 1" 0 "{}"]
    v f0
  show ?thesis by (simp add: demo_bgr_def demo_video_def)
qed

section \<open>C5: one frame after the other\<close>

text \<open>
  C5. In a run that reaches the loop, the calls of the loop are, frame by frame and in the
  order of the loop index: the frame is received, \<^verbatim>\<open>before_ops\<close> runs (not for the first
  frame), \<^verbatim>\<open>outputs\<close> runs, the result is written (from index 5 on); only then is the next
  frame received. The frames received are the frames the reader yields, which are the
  frames of the container in its order, from the position of the capture up to the end
  frame. The frames written are, in the same order, the conversions of the generator
  results from the sixth on.
\<close>

theorem frames_in_order:
  assumes v: "fs iv = Some v" and ne: "vframes v \<noteq> []"
    and op: "writer_opens e (ov @ ''.temp.mp4'')"
    and rd: "VideoReader_init fs iv sf ef = Inr rd"
    and len: "len_builtin rd = Inr total_frames"
  shows "calls (trace (snd (process_video e iv ov (Some c) nr sc ema sf ef fps fs ds))) =
           expected_calls (length (reader_frames rd)) \<and>
         read_frames (trace (snd (process_video e iv ov (Some c) nr sc ema sf ef fps fs ds))) =
           reader_frames rd \<and>
         reader_frames rd =
           map (\<lambda>d. reverse_channels (frame_of v d))
             (take (nat (self_end_frame rd - self_current_frame rd))
                (drop (cpos (self_cap rd)) (vframes v))) \<and>
         written_images (trace (snd (process_video e iv ov (Some c) nr sc ema sf ef fps fs ds))) =
           drop 5 (map (\<lambda>(x, pw). to_output_img (generator (graph_of e v nr sc) x pw))
                     (output_calls (trace (snd (process_video e iv ov (Some c) nr sc ema sf ef
                        fps fs ds)))))"
proof -
  from VideoReader_init_Inr [OF rd] v have cf: "cfile (self_cap rd) = v" by simp
  note run = process_video_main [where fs = fs and input_video = iv, OF v ne op rd len]
  have r: "read_frames (trace (snd (process_video e iv ov (Some c) nr sc ema sf ef fps fs ds))) =
           reader_frames rd"
    by (simp add: run read_frames_setup_events read_frames_loop_events read_frames_Cons)
  have "calls (trace (snd (process_video e iv ov (Some c) nr sc ema sf ef fps fs ds))) =
           expected_calls (length (reader_frames rd))"
    using process_video_calls [of e iv ov "Some c" nr sc ema sf ef fps fs ds] by (simp add: r)
  moreover have "reader_frames rd =
           map (\<lambda>d. reverse_channels (frame_of v d))
             (take (nat (self_end_frame rd - self_current_frame rd))
                (drop (cpos (self_cap rd)) (vframes v)))"
    using reader_frames_eq [of rd] by (simp add: cf)
  moreover have "written_images (trace (snd (process_video e iv ov (Some c) nr sc ema sf ef fps fs ds))) =
           drop 5 (map (\<lambda>(x, pw). to_output_img (generator (graph_of e v nr sc) x pw))
                     (output_calls (trace (snd (process_video e iv ov (Some c) nr sc ema sf ef
                        fps fs ds)))))"
    using written_loop_events [of "graph_of e v nr sc" 0 "reader_frames rd" "initial_session v sc"]
    by (simp add: run setup_events_no_remove setup_events_no_outputs written_images_Cons
          output_calls_Cons)
  ultimately show ?thesis using r by simp
qed

text \<open>On the example run: seven frames, received in the order of the container.\<close>

theorem frames_in_order_witness:
  "demo_files ''in.mp4'' = Some demo_video \<and> vframes demo_video \<noteq> [] \<and>
   writer_opens demo_env (''out.mp4'' @ ''.temp.mp4'') \<and>
   VideoReader_init demo_files ''in.mp4'' 0 (- 1) = Inr demo_reader \<and>
   len_builtin demo_reader = Inr 7 \<and>
   calls (trace (snd (process_video demo_env ''in.mp4'' ''out.mp4'' (Some ''model.ckpt'') 10 2 True
      0 (- 1) 0 demo_files {}))) = expected_calls 7 \<and>
   read_frames (trace (snd (process_video demo_env ''in.mp4'' ''out.mp4'' (Some ''model.ckpt'') 10 2
      True 0 (- 1) 0 demo_files {}))) =
     [demo_rgb 0, demo_rgb 1, demo_rgb 2, demo_rgb 3, demo_rgb 4, demo_rgb 5, demo_rgb 6]"
proof -
  have v: "demo_files ''in.mp4'' = Some demo_video" by (simp add: demo_files_def)
  have ne: "vframes demo_video \<noteq> []" by (simp add: demo_video_def)
  have op: "writer_opens demo_env (''out.mp4'' @ ''.temp.mp4'')" by (simp add: demo_env_def)
  have len: "len_builtin demo_reader = Inr 7"
    by (simp add: len_builtin_def VideoReader_len_def demo_reader_def)
  from frames_in_order [where fs = demo_files and iv = "''in.mp4''", OF v ne op demo_reader_init len,
      of "''model.ckpt''" 10 2 True 0 "{}"]
    v ne op demo_reader_init len
  show ?thesis by (simp add: demo_reader_frames eval_nat_numeral)
qed

section \<open>C6: the failures process_video raises\<close>

text \<open>
  C6. Without a checkpoint path \<open>process_video\<close> raises ValueError before it touches
  anything. With one, it raises ValueError when the input video does not open (after the
  one attempt to open it), when the video opens and its first frame cannot be read, and
  when the writer on the temporary path does not open (after the one attempt to open it,
  with no frame read and no command run). In each case the trace ends with the failed
  call: nothing is retried and nothing is done afterwards.
\<close>

theorem process_video_raises:
  "process_video e iv ov None nr sc ema sf ef fps fs ds =
     (Raised (ValueError ''The checkpoint file is needed to perform super-resolution.''),
      \<lparr>files = fs, dirs = ds, trace = []\<rparr>) \<and>
   (fs iv = None \<longrightarrow>
      process_video e iv ov (Some c) nr sc ema sf ef fps fs ds =
        (Raised (ValueError (''Could not open video file: '' @ iv)),
         \<lparr>files = fs, dirs = ds, trace = [EvCapture iv]\<rparr>)) \<and>
   (fs iv = Some v \<and> vframes v = [] \<longrightarrow>
      process_video e iv ov (Some c) nr sc ema sf ef fps fs ds =
        (Raised (ValueError (''Could not read from video file: '' @ iv)),
         \<lparr>files = fs, dirs = ds, trace = [EvCapture iv, EvCapture iv]\<rparr>)) \<and>
   (fs iv = Some v \<and> vframes v \<noteq> [] \<and> \<not> writer_opens e (ov @ ''.temp.mp4'') \<longrightarrow>
      process_video e iv ov (Some c) nr sc ema sf ef fps fs ds =
        (Raised (ValueError (''Could not open video writer for: '' @ ov)),
         \<lparr>files = fs, dirs = dirs_after ov fs ds, trace = setup_events v iv ov sc fps fs ds\<rparr>) \<and>
      map fst (writers (setup_events v iv ov sc fps fs ds)) = [ov @ ''.temp.mp4''] \<and>
      calls (setup_events v iv ov sc fps fs ds) = [] \<and>
      systems (setup_events v iv ov sc fps fs ds) = [])"
  by (simp add: process_video_no_checkpoint process_video_cannot_open process_video_cannot_read
        process_video_writer_fails setup_events_projections calls_setup_events)

text \<open>
  The three conditional cases on inputs that meet them: a path the file system does not
  hold, a container without frames, and an environment in which no writer opens.
\<close>

theorem process_video_raises_witness:
  "demo_files ''missing.mp4'' = None \<and>
   fst (process_video demo_env ''missing.mp4'' ''out.mp4'' (Some ''model.ckpt'') 10 2 True 0 (- 1) 0
          demo_files {}) = Raised (ValueError ''Could not open video file: missing.mp4'') \<and>
   [''in.mp4'' \<mapsto> empty_video] ''in.mp4'' = Some empty_video \<and> vframes empty_video = [] \<and>
   fst (process_video demo_env ''in.mp4'' ''out.mp4'' (Some ''model.ckpt'') 10 2 True 0 (- 1) 0
          [''in.mp4'' \<mapsto> empty_video] {}) =
     Raised (ValueError ''Could not read from video file: in.mp4'') \<and>
   demo_files ''in.mp4'' = Some demo_video \<and> vframes demo_video \<noteq> [] \<and>
   \<not> writer_opens closed_env (''out.mp4'' @ ''.temp.mp4'') \<and>
   process_video closed_env ''in.mp4'' ''out.mp4'' (Some ''model.ckpt'') 10 2 True 0 (- 1) 0
          demo_files {} =
     (Raised (ValueError ''Could not open video writer for: out.mp4''),
      \<lparr>files = demo_files, dirs = {},
       trace = [EvCapture ''in.mp4'', EvCapture ''in.mp4'', EvBuildGraph [1, 1, 1, 3] [1, 2, 2, 3],
                EvWriter ''out.mp4.temp.mp4'' 30 (2, 2)]\<rparr>)"
proof -
  have a: "demo_files ''missing.mp4'' = None" by (simp add: demo_files_def)
  have b: "[''in.mp4'' \<mapsto> empty_video] ''in.mp4'' = Some empty_video \<and> vframes empty_video = []"
    by (simp add: empty_video_def)
  have c: "demo_files ''in.mp4'' = Some demo_video \<and> vframes demo_video \<noteq> [] \<and>
           \<not> writer_opens closed_env (''out.mp4'' @ ''.temp.mp4'')"
    by (simp add: demo_files_def demo_video_def closed_env_def)
  have d: "dirs_after ''out.mp4'' demo_files {} = {}"
    by (simp add: dirs_after_def os_path_dirname_def)
  from process_video_raises [of demo_env "''missing.mp4''" "''out.mp4''" 10 2 True 0 "- 1" 0
         demo_files "{}" "''model.ckpt''"] a
  have 1: "fst (process_video demo_env ''missing.mp4'' ''out.mp4'' (Some ''model.ckpt'') 10 2 True 0
          (- 1) 0 demo_files {}) = Raised (ValueError ''Could not open video file: missing.mp4'')"
    by simp
  from process_video_raises [of demo_env "''in.mp4''" "''out.mp4''" 10 2 True 0 "- 1" 0
         "[''in.mp4'' \<mapsto> empty_video]" "{}" "''model.ckpt''" empty_video] b
  have 2: "fst (process_video demo_env ''in.mp4'' ''out.mp4'' (Some ''model.ckpt'') 10 2 True 0 (- 1) 0
          [''in.mp4'' \<mapsto> empty_video] {}) =
     Raised (ValueError ''Could not read from video file: in.mp4'')"
    by simp
  from process_video_raises [of closed_env "''in.mp4''" "''out.mp4''" 10 2 True 0 "- 1" 0
         demo_files "{}" "''model.ckpt''" demo_video] c
  have 3: "process_video closed_env ''in.mp4'' ''out.mp4'' (Some ''model.ckpt'') 10 2 True 0 (- 1) 0
          demo_files {} =
     (Raised (ValueError ''Could not open video writer for: out.mp4''),
      \<lparr>files = demo_files, dirs = {},
       trace = [EvCapture ''in.mp4'', EvCapture ''in.mp4'', EvBuildGraph [1, 1, 1, 3] [1, 2, 2, 3],
                EvWriter ''out.mp4.temp.mp4'' 30 (2, 2)]\<rparr>)"
    by (simp add: d demo_setup_events)
  from a b c 1 2 3 show ?thesis by simp
qed

section \<open>C7: the temporary file and the encoder\<close>

text \<open>
  C7. Take a run that returns, with a shell on which the encoder command succeeds: it puts
  at the output path an encoding of what the temporary path holds and leaves the other
  files alone. Then the writer was opened once, on \<^verbatim>\<open>output_video + '.temp.mp4'\<close>; every
  frame was written before the writer was released; after the release the encoder command
  on the temporary file is the one shell command of the run, and the removal of the
  temporary file follows it as the last call. At the end the temporary path holds nothing,
  the output path holds the encoding of the file with exactly the frames written, and
  every other path holds what it held before.
\<close>

theorem temporary_file_then_encoder:
  assumes ret: "fst (process_video e iv ov ck nr sc ema sf ef fps fs ds) = Returned"
    and enc: "\<forall>F. os_system e (ffmpeg_command (ov @ ''.temp.mp4'') ov) F =
                  F(ov \<mapsto> encode (F (ov @ ''.temp.mp4'')))"
  shows "\<exists>v before.
     fs iv = Some v \<and>
     trace (snd (process_video e iv ov ck nr sc ema sf ef fps fs ds)) =
       before @ [EvRelease, EvSystem (ffmpeg_command (ov @ ''.temp.mp4'') ov),
                 EvRemove (ov @ ''.temp.mp4'')] \<and>
     map fst (writers before) = [ov @ ''.temp.mp4''] \<and>
     systems before = [] \<and> removes before = [] \<and>
     written_images before =
       written_images (trace (snd (process_video e iv ov ck nr sc ema sf ef fps fs ds))) \<and>
     files (snd (process_video e iv ov ck nr sc ema sf ef fps fs ds)) (ov @ ''.temp.mp4'') = None \<and>
     files (snd (process_video e iv ov ck nr sc ema sf ef fps fs ds)) ov =
       Some (encode (Some (add_frames (temp_file v sc fps) (written_images before)))) \<and>
     (\<forall>p. p \<noteq> ov \<and> p \<noteq> ov @ ''.temp.mp4'' \<longrightarrow>
          files (snd (process_video e iv ov ck nr sc ema sf ef fps fs ds)) p = fs p)"
proof -
  from process_video_Returned [OF ret]
  obtain c v rd total where ck: "ck = Some c" and v: "fs iv = Some v" and ne: "vframes v \<noteq> []"
    and op: "writer_opens e (ov @ ''.temp.mp4'')" and rd: "VideoReader_init fs iv sf ef = Inr rd"
    and len: "len_builtin rd = Inr total"
    by blast
  define loop where "loop = loop_events (graph_of e v nr sc) 0 (reader_frames rd) (initial_session v sc)"
  define before where "before = setup_events v iv ov sc fps fs ds @
     [EvRestore (restore_vars_dict ema (trainable_variables (graph_of e v nr sc))) c] @ loop"
  have ne_path: "ov \<noteq> ov @ ''.temp.mp4''" by simp
  have fal: "files_after_loop e v ov nr sc fps rd fs =
      fs(ov @ ''.temp.mp4'' \<mapsto> add_frames (temp_file v sc fps) (written_images loop))"
    by (simp add: files_after_loop_def loop_def)
  have fae: "files_after_encoder e v ov nr sc fps rd fs =
      (fs(ov @ ''.temp.mp4'' \<mapsto> add_frames (temp_file v sc fps) (written_images loop)))
        (ov \<mapsto> encode (Some (add_frames (temp_file v sc fps) (written_images loop))))"
    unfolding files_after_encoder_def fal using enc by simp
  have wb: "written_images before = written_images loop"
    by (simp add: before_def setup_events_no_remove written_images_Cons)
  have run: "process_video e iv ov ck nr sc ema sf ef fps fs ds =
     (if total = 0 then Raised ZeroDivisionError else Returned,
      \<lparr>files = (files_after_encoder e v ov nr sc fps rd fs)(ov @ ''.temp.mp4'' := None),
       dirs = dirs_after ov fs ds,
       trace = before @ [EvRelease, EvSystem (ffmpeg_command (ov @ ''.temp.mp4'') ov),
                         EvRemove (ov @ ''.temp.mp4'')]\<rparr>)"
    unfolding ck
    by (simp add: process_video_main [where fs = fs and input_video = iv, OF v ne op rd len]
          before_def loop_def fae)
  have "map fst (writers before) = [ov @ ''.temp.mp4'']" and "systems before = []"
    and "removes before = []"
    by (simp_all add: before_def loop_def setup_events_projections setup_events_no_remove
          loop_events_no_setup loop_events_no_remove writers_Cons systems_Cons removes_Cons)
  moreover have "written_images before =
       written_images (trace (snd (process_video e iv ov ck nr sc ema sf ef fps fs ds)))"
    by (simp add: run written_images_Cons)
  moreover have "files (snd (process_video e iv ov ck nr sc ema sf ef fps fs ds)) (ov @ ''.temp.mp4'') = None"
    by (simp add: run)
  moreover have "files (snd (process_video e iv ov ck nr sc ema sf ef fps fs ds)) ov =
       Some (encode (Some (add_frames (temp_file v sc fps) (written_images before))))"
    by (simp add: run fae wb)
  moreover have "\<forall>p. p \<noteq> ov \<and> p \<noteq> ov @ ''.temp.mp4'' \<longrightarrow>
          files (snd (process_video e iv ov ck nr sc ema sf ef fps fs ds)) p = fs p"
    by (simp add: run fae)
  ultimately show ?thesis
    using v run by (intro exI [of _ v] exI [of _ before]) simp
qed

text \<open>The example run returns, and its shell encodes: the claim's conditions are met.\<close>

theorem temporary_file_then_encoder_witness:
  "fst (process_video demo_env ''in.mp4'' ''out.mp4'' (Some ''model.ckpt'') 10 2 True 0 (- 1) 0
          demo_files {}) = Returned \<and>
   (\<forall>F. os_system demo_env (ffmpeg_command (''out.mp4'' @ ''.temp.mp4'') ''out.mp4'') F =
          F(''out.mp4'' \<mapsto> demo_encode (F (''out.mp4'' @ ''.temp.mp4'')))) \<and>
   files (snd (process_video demo_env ''in.mp4'' ''out.mp4'' (Some ''model.ckpt'') 10 2 True 0 (- 1) 0
          demo_files {})) ''out.mp4.temp.mp4'' = None \<and>
   (\<exists>x. files (snd (process_video demo_env ''in.mp4'' ''out.mp4'' (Some ''model.ckpt'') 10 2 True 0
          (- 1) 0 demo_files {})) ''out.mp4'' = Some x)"
proof -
  have ret: "fst (process_video demo_env ''in.mp4'' ''out.mp4'' (Some ''model.ckpt'') 10 2 True 0 (- 1)
          0 demo_files {}) = Returned"
    using demo_run_main by (simp add: demo_run_def)
  have enc: "\<forall>F. os_system demo_env (ffmpeg_command (''out.mp4'' @ ''.temp.mp4'') ''out.mp4'') F =
          F(''out.mp4'' \<mapsto> demo_encode (F (''out.mp4'' @ ''.temp.mp4'')))"
    by (simp add: demo_env_def)
  from temporary_file_then_encoder [OF ret enc] ret enc show ?thesis
    by auto
qed

text \<open>
  When the shell command leaves the files as they are (the encoder is missing or fails),
  the run still removes the temporary file, and returns or raises as it would otherwise:
  the output path holds what it held at the start.
\<close>

lemma encoder_failure_leaves_no_output:
  assumes v: "fs iv = Some v" and ne: "vframes v \<noteq> []"
    and op: "writer_opens e (ov @ ''.temp.mp4'')"
    and rd: "VideoReader_init fs iv sf ef = Inr rd"
    and len: "len_builtin rd = Inr total_frames"
    and fail: "\<forall>F. os_system e (ffmpeg_command (ov @ ''.temp.mp4'') ov) F = F"
  shows "fst (process_video e iv ov (Some c) nr sc ema sf ef fps fs ds) =
           (if total_frames = 0 then Raised ZeroDivisionError else Returned) \<and>
         files (snd (process_video e iv ov (Some c) nr sc ema sf ef fps fs ds)) (ov @ ''.temp.mp4'') =
           None \<and>
         files (snd (process_video e iv ov (Some c) nr sc ema sf ef fps fs ds)) ov = fs ov"
  using fail
  by (simp add: process_video_main [where fs = fs and input_video = iv, OF v ne op rd len]
        files_after_encoder_def files_after_loop_def)

section \<open>C8: what is fed to the graph\<close>

text \<open>
  C8. In a run that reaches the loop, the tensors fed to the generator are, in order, the
  frames the capture decodes for the reader, each with its channels reversed and every
  byte b replaced by b / 255; every value fed lies between 0 and 1; \<^verbatim>\<open>before_ops\<close> is fed
  the same tensor as the generator run of the same frame. The graph is built once, before
  the first call of the loop, and all calls of the loop are made on that one graph.
\<close>

theorem fed_tensor_is_normalized_frame:
  assumes v: "fs iv = Some v" and ne: "vframes v \<noteq> []"
    and op: "writer_opens e (ov @ ''.temp.mp4'')"
    and rd: "VideoReader_init fs iv sf ef = Inr rd"
    and len: "len_builtin rd = Inr total_frames"
  shows "fed_frames (trace (snd (process_video e iv ov (Some c) nr sc ema sf ef fps fs ds))) =
           map (\<lambda>d. normalize_frame (reverse_channels (frame_of v d)))
             (take (nat (self_end_frame rd - self_current_frame rd))
                (drop (cpos (self_cap rd)) (vframes v))) \<and>
         (\<forall>frame. values_of (normalize_frame frame) =
                    map (\<lambda>b. real (unat b) / 255) (values_of frame)) \<and>
         (\<forall>x \<in> set (fed_frames (trace (snd (process_video e iv ov (Some c) nr sc ema sf ef fps fs ds)))).
            \<forall>y \<in> set (values_of x). 0 \<le> y \<and> y \<le> 1) \<and>
         (\<forall>i x. EvBefore i x \<in> set (trace (snd (process_video e iv ov (Some c) nr sc ema sf ef fps fs ds))) \<longrightarrow>
            (\<exists>pw. EvOutputs i x pw \<in> set (trace (snd (process_video e iv ov (Some c) nr sc ema sf ef
                      fps fs ds))))) \<and>
         builds (trace (snd (process_video e iv ov (Some c) nr sc ema sf ef fps fs ds))) =
           [(input_shape_of v, output_shape_of v sc)] \<and>
         (\<exists>pre post.
            trace (snd (process_video e iv ov (Some c) nr sc ema sf ef fps fs ds)) =
              pre @ loop_events (graph_of e v nr sc) 0 (reader_frames rd) (initial_session v sc) @ post \<and>
            builds pre = [(input_shape_of v, output_shape_of v sc)] \<and> calls pre = [] \<and>
            calls post = [])"
proof -
  let ?tr = "trace (snd (process_video e iv ov (Some c) nr sc ema sf ef fps fs ds))"
  let ?pre = "setup_events v iv ov sc fps fs ds @
       [EvRestore (restore_vars_dict ema (trainable_variables (graph_of e v nr sc))) c]"
  let ?loop = "loop_events (graph_of e v nr sc) 0 (reader_frames rd) (initial_session v sc)"
  let ?post = "[EvRelease, EvSystem (ffmpeg_command (ov @ ''.temp.mp4'') ov)] @
       (if ov @ ''.temp.mp4'' \<in> dirs_after ov fs ds \<or>
           files_after_encoder e v ov nr sc fps rd fs (ov @ ''.temp.mp4'') \<noteq> None
        then [EvRemove (ov @ ''.temp.mp4'')] else [])"
  from VideoReader_init_Inr [OF rd] v have cf: "cfile (self_cap rd) = v" by simp
  have tr: "?tr = ?pre @ ?loop @ ?post"
    by (simp add: process_video_main [where fs = fs and input_video = iv, OF v ne op rd len])
  have pre: "builds ?pre = [(input_shape_of v, output_shape_of v sc)]" "calls ?pre = []"
    "fed_frames ?pre = []"
    by (simp_all add: setup_events_projections calls_setup_events fed_frames_setup_events
          builds_Cons calls_Cons fed_frames_Cons)
  have post: "builds ?post = []" "calls ?post = []" "fed_frames ?post = []"
    by (simp_all add: builds_Cons calls_Cons fed_frames_Cons)
  have fed: "fed_frames ?tr = map normalize_frame (reader_frames rd)"
    unfolding tr by (simp add: fed_frames_setup_events fed_frames_Cons fed_frames_loop_events)
  have 1: "fed_frames ?tr = map (\<lambda>d. normalize_frame (reverse_channels (frame_of v d)))
             (take (nat (self_end_frame rd - self_current_frame rd))
                (drop (cpos (self_cap rd)) (vframes v)))"
    unfolding fed by (subst reader_frames_eq) (simp add: cf)
  have 3: "\<forall>x \<in> set (fed_frames ?tr). \<forall>y \<in> set (values_of x). 0 \<le> y \<and> y \<le> 1"
    unfolding fed using normalized_value_range by auto
  have 4: "\<forall>i x. EvBefore i x \<in> set ?tr \<longrightarrow> (\<exists>pw. EvOutputs i x pw \<in> set ?tr)"
  proof (intro allI impI)
    fix i x
    assume "EvBefore i x \<in> set ?tr"
    then have "EvBefore i x \<in> set ?loop"
      unfolding tr by (auto simp: setup_events_def split: if_splits)
    from before_in_loop_events [OF this] show "\<exists>pw. EvOutputs i x pw \<in> set ?tr"
      unfolding tr by auto
  qed
  have 5: "builds ?tr = [(input_shape_of v, output_shape_of v sc)]"
    unfolding tr by (simp add: setup_events_projections builds_Cons loop_events_no_setup)
  have 6: "\<exists>pre post. ?tr = pre @ ?loop @ post \<and>
            builds pre = [(input_shape_of v, output_shape_of v sc)] \<and> calls pre = [] \<and>
            calls post = []"
    using tr pre post by blast
  from 1 3 4 5 6 values_of_normalize_frame show ?thesis by blast
qed

text \<open>On the example run: seven frames fed, one graph built.\<close>

theorem fed_tensor_is_normalized_frame_witness:
  "demo_files ''in.mp4'' = Some demo_video \<and> vframes demo_video \<noteq> [] \<and>
   writer_opens demo_env (''out.mp4'' @ ''.temp.mp4'') \<and>
   VideoReader_init demo_files ''in.mp4'' 0 (- 1) = Inr demo_reader \<and>
   len_builtin demo_reader = Inr 7 \<and>
   fed_frames (trace (snd (process_video demo_env ''in.mp4'' ''out.mp4'' (Some ''model.ckpt'') 10 2
      True 0 (- 1) 0 demo_files {}))) =
     [demo_fed 0, demo_fed (1 / 255), demo_fed (2 / 255), demo_fed (3 / 255), demo_fed (4 / 255),
      demo_fed (5 / 255), demo_fed (6 / 255)] \<and>
   builds (trace (snd (process_video demo_env ''in.mp4'' ''out.mp4'' (Some ''model.ckpt'') 10 2
      True 0 (- 1) 0 demo_files {}))) = [([1, 1, 1, 3], [1, 2, 2, 3])]"
proof -
  have v: "demo_files ''in.mp4'' = Some demo_video" by (simp add: demo_files_def)
  have ne: "vframes demo_video \<noteq> []" by (simp add: demo_video_def)
  have op: "writer_opens demo_env (''out.mp4'' @ ''.temp.mp4'')" by (simp add: demo_env_def)
  have len: "len_builtin demo_reader = Inr 7"
    by (simp add: len_builtin_def VideoReader_len_def demo_reader_def)
  have frames: "map (\<lambda>d. normalize_frame (reverse_channels (frame_of demo_video d)))
             (take (nat (self_end_frame demo_reader - self_current_frame demo_reader))
                (drop (cpos (self_cap demo_reader)) (vframes demo_video))) =
     [demo_fed 0, demo_fed (1 / 255), demo_fed (2 / 255), demo_fed (3 / 255), demo_fed (4 / 255),
      demo_fed (5 / 255), demo_fed (6 / 255)]"
    by (simp add: demo_reader_def demo_video_def demo_pixels_def frame_of_def reverse_channels_def
          normalize_frame_def map_elems_def demo_fed_def)
  have shapes: "input_shape_of demo_video = [1, 1, 1, 3] \<and> output_shape_of demo_video 2 = [1, 2, 2, 3]"
    by (simp add: input_shape_of_def output_shape_of_def demo_video_def)
  from fed_tensor_is_normalized_frame [where fs = demo_files and iv = "''in.mp4''",
      OF v ne op demo_reader_init len, of "''model.ckpt''" 10 2 True 0 "{}"]
  have "fed_frames (trace (snd (process_video demo_env ''in.mp4'' ''out.mp4'' (Some ''model.ckpt'') 10 2
      True 0 (- 1) 0 demo_files {}))) =
        map (\<lambda>d. normalize_frame (reverse_channels (frame_of demo_video d)))
             (take (nat (self_end_frame demo_reader - self_current_frame demo_reader))
                (drop (cpos (self_cap demo_reader)) (vframes demo_video)))"
    and "builds (trace (snd (process_video demo_env ''in.mp4'' ''out.mp4'' (Some ''model.ckpt'') 10 2
      True 0 (- 1) 0 demo_files {}))) = [(input_shape_of demo_video, output_shape_of demo_video 2)]"
    by blast+
  with v ne op demo_reader_init len frames shapes show ?thesis by simp
qed

section \<open>C9: the pixels written\<close>

text \<open>
  C9. Every frame written is the conversion of the generator output of the same loop index,
  and every one of its values is \<open>output_pixel x\<close> for a value \<open>x\<close> of that output: the
  unsigned value of the byte is the floor of \<open>x * 255\<close> clipped to 0..255, which lies
  between 0 and 255, so the eight-bit cast does not wrap.
\<close>

theorem written_pixels_in_range:
  assumes w: "EvWrite i img \<in> set (trace (snd (process_video e iv ov ck nr sc ema sf ef fps fs ds)))"
    and b: "b \<in> set (values_of img)"
  shows "\<exists>v feed pw x.
           fs iv = Some v \<and>
           EvOutputs i feed pw \<in> set (trace (snd (process_video e iv ov ck nr sc ema sf ef fps fs ds))) \<and>
           img = to_output_img (generator (graph_of e v nr sc) feed pw) \<and>
           x \<in> set (values_of (generator (graph_of e v nr sc) feed pw)) \<and>
           b = output_pixel x \<and> uint b = \<lfloor>np_clip (x * 255) 0 255\<rfloor> \<and>
           0 \<le> uint b \<and> uint b \<le> 255"
proof -
  from process_video_structure [of e iv ov ck nr sc ema sf ef fps fs ds]
  obtain pre frames post g sess where
    tr: "trace (snd (process_video e iv ov ck nr sc ema sf ef fps fs ds)) =
           pre @ loop_events g 0 frames sess @ post"
    and pre: "calls pre = []" and post: "calls post = []"
    and g: "frames \<noteq> [] \<longrightarrow> (\<exists>v. fs iv = Some v \<and> g = graph_of e v nr sc \<and> sess = initial_session v sc)"
    by blast
  from w tr no_calls_no_write [OF pre] no_calls_no_write [OF post]
  have wl: "EvWrite i img \<in> set (loop_events g 0 frames sess)" by auto
  then have "frames \<noteq> []" by auto
  with g obtain v where v: "fs iv = Some v" and gv: "g = graph_of e v nr sc" by blast
  from write_in_loop_events [OF wl] obtain feed pw where
    o: "EvOutputs i feed pw \<in> set (loop_events g 0 frames sess)"
    and img: "img = to_output_img (generator g feed pw)" by blast
  from values_of_to_output_img b img obtain x where
    x: "x \<in> set (values_of (generator g feed pw))" and bx: "b = output_pixel x" by blast
  from o tr have "EvOutputs i feed pw \<in> set (trace (snd (process_video e iv ov ck nr sc ema sf ef fps fs ds)))"
    by simp
  with v img x bx gv output_pixel_no_wrap [of x] clip_floor_range [of "x * 255"]
  show ?thesis by auto
qed

text \<open>On the example run, frame 5 is written with the value 5 in it.\<close>

theorem written_pixels_in_range_witness:
  "EvWrite 5 (demo_bgr 5) \<in> set (trace (snd (process_video demo_env ''in.mp4'' ''out.mp4''
      (Some ''model.ckpt'') 10 2 True 0 (- 1) 0 demo_files {}))) \<and>
   (5 :: uint8) \<in> set (values_of (demo_bgr 5)) \<and>
   (\<exists>x. (5 :: uint8) = output_pixel x \<and> uint (5 :: uint8) = \<lfloor>np_clip (x * 255) 0 255\<rfloor>)"
proof -
  have w: "EvWrite 5 (demo_bgr 5) \<in> set (trace (snd (process_video demo_env ''in.mp4'' ''out.mp4''
      (Some ''model.ckpt'') 10 2 True 0 (- 1) 0 demo_files {})))"
    using demo_run_main by (simp add: demo_run_def demo_trace_def)
  have b: "(5 :: uint8) \<in> set (values_of (demo_bgr 5))"
    by (simp add: values_of_def demo_bgr_def)
  from written_pixels_in_range [OF w b] w b show ?thesis by blast
qed

section \<open>C10: the reader's end frame, its iterator and its length\<close>




end
